theory Spec2Isabelle
  imports Main "HOL-Library.Word"
begin

section \<open>The HumanTranslator web client (web/script.js)\<close>

text \<open>
  The client is one script of event handlers over a fixed set of page elements. The
  embedding follows the script function by function: the page elements the script holds
  are the fields of a record, every handler is a function from the page to the page, and
  what a handler does outside the page (a \<^verbatim>\<open>fetch\<close>, a clipboard write, a download,
  playing audio) is appended to a list of effects kept in the page record.

  The source file holds the script twice: the current script on lines 1 to 247 and,
  after a separator line, an earlier copy without the status bar and without the copy
  and download buttons. The embedding follows the current script, and the line numbers
  quoted below are its lines.

  A handler that awaits a \<^verbatim>\<open>fetch\<close> takes the outcome of that request as an argument:
  the promise rejects, the body is not JSON, or the body parses to a value. The part
  before and the part after the \<^verbatim>\<open>await\<close> are run in one step.
\<close>

subsection \<open>Strings\<close>

text \<open>
  A JavaScript string is a sequence of UTF-16 code units. \<open>lit\<close> embeds an ASCII
  literal of the source; the literals of the source outside ASCII are written out as
  code units below.
\<close>

type_synonym jstring = "16 word list"

definition lit :: "string \<Rightarrow> jstring" where
  "lit s = map of_char s"

text \<open>
  \<^verbatim>\<open>String.prototype.trim\<close> removes the white space and line terminator code points of
  ECMAScript from both ends: TAB, LF, VT, FF, CR, SP, NBSP, U+1680, U+2000 to U+200A,
  U+2028, U+2029, U+202F, U+205F, U+3000 and U+FEFF.
\<close>

definition is_ws :: "16 word \<Rightarrow> bool" where
  "is_ws c \<longleftrightarrow>
     c = 0x9 \<or> c = 0xA \<or> c = 0xB \<or> c = 0xC \<or> c = 0xD \<or> c = 0x20 \<or> c = 0xA0 \<or>
     c = 0x1680 \<or> (0x2000 \<le> c \<and> c \<le> 0x200A) \<or> c = 0x2028 \<or> c = 0x2029 \<or>
     c = 0x202F \<or> c = 0x205F \<or> c = 0x3000 \<or> c = 0xFEFF"

definition trim :: "jstring \<Rightarrow> jstring" where
  "trim s = rev (dropWhile is_ws (rev (dropWhile is_ws s)))"

fun digits :: "nat \<Rightarrow> jstring" where
  "digits n = (if n < 10 then [0x30 + of_nat n] else digits (n div 10) @ [0x30 + of_nat (n mod 10)])"

declare digits.simps [simp del]

text \<open>
  The decimal digits of an integer: what JavaScript prints for an array index and for
  the time stamp of \<^verbatim>\<open>new Date().getTime()\<close>, both far below the 21 digits from which
  it prints an exponent.
\<close>

definition decimal :: "int \<Rightarrow> jstring" where
  "decimal i = (if i < 0 then 0x2D # digits (nat (- i)) else digits (nat i))"

text \<open>
  What a text area reads as its \<^verbatim>\<open>value\<close> after a string was assigned to it: the
  string with every CR LF pair and every other CR turned into LF.
\<close>

fun normalize_newlines :: "jstring \<Rightarrow> jstring" where
  "normalize_newlines [] = []"
| "normalize_newlines [c] = [if c = 0xD then 0xA else c]"
| "normalize_newlines (c # d # cs) =
     (if c = 0xD \<and> d = 0xA then 0xA # normalize_newlines cs
      else if c = 0xD then 0xA # normalize_newlines (d # cs)
      else c # normalize_newlines (d # cs))"

text \<open>
  The conversion of a string to a \<^verbatim>\<open>USVString\<close>, as the \<^verbatim>\<open>src\<close> attribute of a media
  element takes it: a surrogate code unit that is not part of a pair becomes U+FFFD.
\<close>

definition is_high_surrogate :: "16 word \<Rightarrow> bool" where
  "is_high_surrogate c \<longleftrightarrow> 0xD800 \<le> c \<and> c \<le> 0xDBFF"

definition is_low_surrogate :: "16 word \<Rightarrow> bool" where
  "is_low_surrogate c \<longleftrightarrow> 0xDC00 \<le> c \<and> c \<le> 0xDFFF"

fun usv_string :: "jstring \<Rightarrow> jstring" where
  "usv_string [] = []"
| "usv_string [c] = [if is_high_surrogate c \<or> is_low_surrogate c then 0xFFFD else c]"
| "usv_string (c # d # cs) =
     (if is_high_surrogate c \<and> is_low_surrogate d then c # d # usv_string cs
      else if is_high_surrogate c \<or> is_low_surrogate c then 0xFFFD # usv_string (d # cs)
      else c # usv_string (d # cs))"

fun join_comma :: "jstring list \<Rightarrow> jstring" where
  "join_comma [] = []"
| "join_comma [s] = s"
| "join_comma (s # t # ss) = s @ 0x2C # join_comma (t # ss)"

subsection \<open>Values of a parsed response\<close>

text \<open>
  The value \<^verbatim>\<open>r.json()\<close> resolves to, and the values read from it. \<open>JUndefined\<close> is
  what reading an absent property gives. The script does no arithmetic: of a number it
  observes only its string conversion and whether it is zero, so \<open>JNum\<close> holds a number
  by the string JavaScript prints for it (\<^verbatim>\<open>0\<close> for both zeros, \<^verbatim>\<open>0.5\<close>, \<^verbatim>\<open>1e+21\<close>).
  \<open>JObj\<close> lists the own properties of an object in the order \<^verbatim>\<open>Object.entries\<close>
  enumerates them; the keys of an object are distinct.
\<close>

datatype json =
    JUndefined
  | JNull
  | JBool bool
  | JNum jstring
  | JStr jstring
  | JArr "json list"
  | JObj "(jstring \<times> json) list"

text \<open>The outcome of \<^verbatim>\<open>await fetch(...)\<close> followed by \<^verbatim>\<open>await r.json()\<close>.\<close>

datatype response =
    Rejected
  | NotJson
  | Body json

text \<open>
  \<open>j.k\<close> for the property names the script reads. Reading a property of \<^verbatim>\<open>null\<close> or
  \<^verbatim>\<open>undefined\<close> throws a TypeError (\<open>None\<close>); on a number, a boolean, a string or
  an array none of those names is defined.
\<close>

fun get_prop :: "json \<Rightarrow> jstring \<Rightarrow> json option" where
  "get_prop JUndefined k = None"
| "get_prop JNull k = None"
| "get_prop (JObj ps) k = (case map_of ps k of None \<Rightarrow> Some JUndefined | Some v \<Rightarrow> Some v)"
| "get_prop j k = Some JUndefined"

text \<open>
  Truthiness, as \<^verbatim>\<open>if (v)\<close>, \<^verbatim>\<open>!v\<close>, \<^verbatim>\<open>&&\<close> and \<^verbatim>\<open>||\<close> test it. A number is falsy
  when it is zero, that is when it prints as \<^verbatim>\<open>0\<close>.
\<close>

fun truthy :: "json \<Rightarrow> bool" where
  "truthy JUndefined = False"
| "truthy JNull = False"
| "truthy (JBool b) = b"
| "truthy (JNum n) = (n \<noteq> lit ''0'')"
| "truthy (JStr s) = (s \<noteq> [])"
| "truthy (JArr xs) = True"
| "truthy (JObj ps) = True"

text \<open>\<^verbatim>\<open>a || b\<close>\<close>

definition js_or :: "json \<Rightarrow> json \<Rightarrow> json" where
  "js_or a b = (if truthy a then a else b)"

text \<open>
  The string conversion of a template literal and of an assignment to a string
  attribute; \<open>None\<close> is the TypeError it throws. An object converts through its
  \<^verbatim>\<open>toString\<close>: a parsed object without a key of that name inherits the one that gives
  \<^verbatim>\<open>[object Object]\<close>; with such a key, whose value is never a function, the conversion
  throws. An array joins the conversions of its elements with commas, with \<^verbatim>\<open>null\<close>
  and \<^verbatim>\<open>undefined\<close> elements empty, and throws when one of them does.
\<close>

fun ToString :: "json \<Rightarrow> jstring option" where
  "ToString JUndefined = Some (lit ''undefined'')"
| "ToString JNull = Some (lit ''null'')"
| "ToString (JBool b) = Some (if b then lit ''true'' else lit ''false'')"
| "ToString (JNum n) = Some n"
| "ToString (JStr s) = Some s"
| "ToString (JArr xs) =
     map_option join_comma
       (those (map (\<lambda>x. if x = JNull \<or> x = JUndefined then Some [] else ToString x) xs))"
| "ToString (JObj ps) =
     (if map_of ps (lit ''toString'') = None then Some (lit ''[object Object]'') else None)"

text \<open>
  Assigning to the \<^verbatim>\<open>value\<close> of a text control: \<^verbatim>\<open>null\<close> is the empty string, anything
  else is converted to a string.
\<close>

definition value_string :: "json \<Rightarrow> jstring option" where
  "value_string v = (if v = JNull then Some [] else ToString v)"

text \<open>
  Assigning to \<^verbatim>\<open>textContent\<close>: \<^verbatim>\<open>null\<close> and \<^verbatim>\<open>undefined\<close> are the empty string,
  anything else is converted to a string.
\<close>

definition text_content_string :: "json \<Rightarrow> jstring option" where
  "text_content_string v = (if v = JNull \<or> v = JUndefined then Some [] else ToString v)"

text \<open>
  \<^verbatim>\<open>Object.entries(v)\<close>: the entries of an object, the indexed elements of an array,
  the indexed code units of a string, nothing for a number or a boolean, and a
  TypeError (\<open>None\<close>) for \<^verbatim>\<open>null\<close> and \<^verbatim>\<open>undefined\<close>.
\<close>

fun indexed :: "nat \<Rightarrow> json list \<Rightarrow> (jstring \<times> json) list" where
  "indexed i [] = []"
| "indexed i (x # xs) = (digits i, x) # indexed (Suc i) xs"

fun entries :: "json \<Rightarrow> (jstring \<times> json) list option" where
  "entries JUndefined = None"
| "entries JNull = None"
| "entries (JBool b) = Some []"
| "entries (JNum n) = Some []"
| "entries (JStr s) = Some (indexed 0 (map (\<lambda>c. JStr [c]) s))"
| "entries (JArr xs) = Some (indexed 0 xs)"
| "entries (JObj ps) = Some ps"

subsection \<open>The literals of the script outside ASCII\<close>

text \<open>
  The status messages are Arabic sentences, some ending in an emoji (a surrogate pair);
  each is given by its UTF-16 code units, with the line of the script it stands on.
\<close>

text \<open>Line 38: nothing to copy.\<close>

definition msg_nothing_to_copy :: jstring where
  "msg_nothing_to_copy =
     [0x644, 0x627, 0x20, 0x64A, 0x648, 0x62C, 0x62F, 0x20, 0x646, 0x635, 0x20, 0x644, 0x644,
      0x646, 0x633, 0x62E]"

text \<open>Line 44: the translation was copied (also line 49).\<close>

definition msg_copied :: jstring where
  "msg_copied =
     [0x62A, 0x645, 0x20, 0x646, 0x633, 0x62E, 0x20, 0x627, 0x644, 0x62A, 0x631, 0x62C,
      0x645, 0x629, 0x20, 0x628, 0x646, 0x62C, 0x627, 0x62D, 0x21, 0x20, 0xD83D, 0xDCCB]"

text \<open>Line 57: nothing to download.\<close>

definition msg_nothing_to_download :: jstring where
  "msg_nothing_to_download =
     [0x644, 0x627, 0x20, 0x64A, 0x648, 0x62C, 0x62F, 0x20, 0x646, 0x635, 0x20, 0x644, 0x644,
      0x62A, 0x62D, 0x645, 0x64A, 0x644]"

text \<open>Line 71: the translation was downloaded.\<close>

definition msg_downloaded :: jstring where
  "msg_downloaded =
     [0x62A, 0x645, 0x20, 0x62A, 0x62D, 0x645, 0x64A, 0x644, 0x20, 0x627, 0x644, 0x62A,
      0x631, 0x62C, 0x645, 0x629, 0x20, 0x643, 0x645, 0x644, 0x641, 0x20, 0x646, 0x635, 0x64A,
      0x21, 0x20, 0xD83D, 0xDCBE]"

text \<open>Line 132: translating.\<close>

definition msg_translating :: jstring where
  "msg_translating =
     [0x62C, 0x627, 0x631, 0x64A, 0x20, 0x627, 0x644, 0x62A, 0x631, 0x62C, 0x645, 0x629,
      0x2E, 0x2E, 0x2E]"

text \<open>Line 144: translated.\<close>

definition msg_translated :: jstring where
  "msg_translated =
     [0x62A, 0x645, 0x62A, 0x20, 0x627, 0x644, 0x62A, 0x631, 0x62C, 0x645, 0x629, 0x20,
      0x628, 0x646, 0x62C, 0x627, 0x62D, 0x21, 0x20, 0x2728]"

text \<open>Line 147: translation failed.\<close>

definition msg_translate_failed :: jstring where
  "msg_translate_failed =
     [0x641, 0x634, 0x644, 0x20, 0x641, 0x64A, 0x20, 0x627, 0x644, 0x62A, 0x631, 0x62C,
      0x645, 0x629]"

text \<open>Line 151: network error (also lines 190 and 219).\<close>

definition msg_network_error :: jstring where
  "msg_network_error =
     [0x62E, 0x637, 0x623, 0x20, 0x641, 0x64A, 0x20, 0x627, 0x644, 0x634, 0x628, 0x643, 0x629]"

text \<open>Line 159: the texts were swapped.\<close>

definition msg_swapped :: jstring where
  "msg_swapped =
     [0x62A, 0x645, 0x20, 0x62A, 0x628, 0x62F, 0x64A, 0x644, 0x20, 0x627, 0x644, 0x646,
      0x635, 0x648, 0x635]"

text \<open>Line 167: all texts were cleared.\<close>

definition msg_cleared :: jstring where
  "msg_cleared =
     [0x62A, 0x645, 0x20, 0x645, 0x633, 0x62D, 0x20, 0x62C, 0x645, 0x64A, 0x639, 0x20, 0x627,
      0x644, 0x646, 0x635, 0x648, 0x635]"

text \<open>Line 173: converting speech to text.\<close>

definition msg_transcribing :: jstring where
  "msg_transcribing =
     [0x62C, 0x627, 0x631, 0x64A, 0x20, 0x62A, 0x62D, 0x648, 0x64A, 0x644, 0x20, 0x627,
      0x644, 0x635, 0x648, 0x62A, 0x20, 0x625, 0x644, 0x649, 0x20, 0x646, 0x635, 0x2E, 0x2E,
      0x2E]"

text \<open>Line 183: speech was converted to text.\<close>

definition msg_transcribed :: jstring where
  "msg_transcribed =
     [0x62A, 0x645, 0x20, 0x62A, 0x62D, 0x648, 0x64A, 0x644, 0x20, 0x627, 0x644, 0x635,
      0x648, 0x62A, 0x20, 0x625, 0x644, 0x649, 0x20, 0x646, 0x635, 0x20, 0x628, 0x646, 0x62C,
      0x627, 0x62D, 0x21, 0x20, 0xD83C, 0xDFB5]"

text \<open>Line 186: speech conversion failed.\<close>

definition msg_stt_failed :: jstring where
  "msg_stt_failed =
     [0x641, 0x634, 0x644, 0x20, 0x641, 0x64A, 0x20, 0x62A, 0x62D, 0x648, 0x64A, 0x644, 0x20,
      0x627, 0x644, 0x635, 0x648, 0x62A]"

text \<open>Line 199: converting text to speech.\<close>

definition msg_synthesising :: jstring where
  "msg_synthesising =
     [0x62C, 0x627, 0x631, 0x64A, 0x20, 0x62A, 0x62D, 0x648, 0x64A, 0x644, 0x20, 0x627,
      0x644, 0x646, 0x635, 0x20, 0x625, 0x644, 0x649, 0x20, 0x635, 0x648, 0x62A, 0x2E, 0x2E,
      0x2E]"

text \<open>Line 212: text was converted to speech.\<close>

definition msg_synthesised :: jstring where
  "msg_synthesised =
     [0x62A, 0x645, 0x20, 0x62A, 0x62D, 0x648, 0x64A, 0x644, 0x20, 0x627, 0x644, 0x646,
      0x635, 0x20, 0x625, 0x644, 0x649, 0x20, 0x635, 0x648, 0x62A, 0x20, 0x628, 0x646, 0x62C,
      0x627, 0x62D, 0x21, 0x20, 0xD83D, 0xDD0A]"

text \<open>Line 215: text to speech failed.\<close>

definition msg_tts_failed :: jstring where
  "msg_tts_failed =
     [0x641, 0x634, 0x644, 0x20, 0x641, 0x64A, 0x20, 0x62A, 0x62D, 0x648, 0x64A, 0x644, 0x20,
      0x627, 0x644, 0x646, 0x635, 0x20, 0x625, 0x644, 0x649, 0x20, 0x635, 0x648, 0x62A]"

text \<open>Line 244: welcome.\<close>

definition msg_welcome :: jstring where
  "msg_welcome =
     [0x645, 0x631, 0x62D, 0x628, 0x627, 0x64B, 0x20, 0x628, 0x643, 0x20, 0x641, 0x64A, 0x20,
      0x48, 0x75, 0x6D, 0x61, 0x6E, 0x54, 0x72, 0x61, 0x6E, 0x73, 0x6C, 0x61, 0x74, 0x6F,
      0x72, 0x21, 0x20, 0xD83C, 0xDF0D]"

text \<open>Line 95: the text of the badge of a healthy server, \<^verbatim>\<open>Server\<close> and U+2713.\<close>

definition badge_ok :: jstring where
  "badge_ok = lit ''Server '' @ [0x2713]"

text \<open>Line 143: the arrow of the language line, U+2192 between two spaces.\<close>

definition arrow :: jstring where
  "arrow = [0x20, 0x2192, 0x20]"

subsection \<open>The page\<close>

text \<open>
  The target-language selector is a \<^verbatim>\<open>select\<close> element. Whether it is a multiple
  selection and what its display size is are set by the page's markup, which the script
  does not touch; both are fields of the element. An option carries its value, its text
  content, its selectedness and whether it is disabled.
\<close>

record select_option =
  opt_value :: jstring
  opt_text :: jstring
  opt_selected :: bool
  opt_disabled :: bool

record select_el =
  sel_multiple :: bool
  sel_size :: nat
  sel_options :: "select_option list"

text \<open>An option with its selectedness set to false.\<close>

definition deselect :: "select_option \<Rightarrow> select_option" where
  "deselect x = x\<lparr>opt_selected := False\<rparr>"

text \<open>
  The selectedness setting algorithm of the HTML standard, which the browser runs when an
  option is inserted: a single selection of display size 1 with no option selected
  selects its first option that is not disabled; a single selection with two or more
  options selected keeps the last of them.
\<close>

fun select_first_enabled :: "select_option list \<Rightarrow> select_option list" where
  "select_first_enabled [] = []"
| "select_first_enabled (x # xs) =
     (if opt_disabled x then x # select_first_enabled xs else x\<lparr>opt_selected := True\<rparr> # xs)"

fun keep_last_selected :: "select_option list \<Rightarrow> select_option list" where
  "keep_last_selected [] = []"
| "keep_last_selected (x # xs) =
     (if filter opt_selected xs = [] then x # xs
      else x\<lparr>opt_selected := False\<rparr> # keep_last_selected xs)"

definition selectedness_setting :: "select_el \<Rightarrow> select_el" where
  "selectedness_setting sel =
     (if sel_multiple sel then sel
      else if sel_size sel = 1 \<and> filter opt_selected (sel_options sel) = []
        then sel\<lparr>sel_options := select_first_enabled (sel_options sel)\<rparr>
      else if 2 \<le> length (filter opt_selected (sel_options sel))
        then sel\<lparr>sel_options := keep_last_selected (sel_options sel)\<rparr>
      else sel)"

text \<open>\<^verbatim>\<open>tgtLang.appendChild(opt)\<close>\<close>

definition appendChild :: "select_option \<Rightarrow> select_el \<Rightarrow> select_el" where
  "appendChild opt sel = selectedness_setting (sel\<lparr>sel_options := sel_options sel @ [opt]\<rparr>)"

text \<open>
  \<^verbatim>\<open>tgtLang.value\<close>: the value of the first selected option, the empty string when no
  option is selected.
\<close>

definition sel_value :: "select_el \<Rightarrow> jstring" where
  "sel_value sel =
     (case filter opt_selected (sel_options sel) of [] \<Rightarrow> [] | x # xs \<Rightarrow> opt_value x)"

text \<open>The children of the alerts container: each a class name and a text.\<close>

record alert_div =
  alert_class :: jstring
  alert_text :: jstring

text \<open>A selected audio file, by its name.\<close>

datatype audio_file = AudioFile jstring

text \<open>The callbacks the script passes to \<^verbatim>\<open>setTimeout\<close>.\<close>

datatype timer = HideStatus | ShowWelcome

text \<open>The requests of the script, with the fields of their bodies.\<close>

datatype request =
    GetHealth
  | GetLanguages
  | PostTranslate jstring jstring jstring
  | PostSTT audio_file
  | PostTTS jstring jstring

text \<open>
  What a handler does outside the page: a \<^verbatim>\<open>fetch\<close>, \<^verbatim>\<open>navigator.clipboard.writeText\<close>,
  \<^verbatim>\<open>document.execCommand('copy')\<close> on the selected translated text, the click on a
  download link (file name and content), and \<^verbatim>\<open>ttsAudio.play()\<close>.
\<close>

datatype effect =
    Fetch request
  | ClipboardWrite jstring
  | ExecCopy jstring
  | Download jstring jstring
  | PlayAudio

text \<open>
  The elements of lines 11 to 21, each by the properties the script reads or writes:
  \<open>srcText\<close>, \<open>outText\<close>, \<open>ttsText\<close> and \<open>srcLang\<close> are what the \<^verbatim>\<open>value\<close> of their
  element reads, \<open>langInfo\<close> the \<^verbatim>\<open>textContent\<close>, \<open>audioInput\<close> the \<^verbatim>\<open>files\<close> (\<open>None\<close>
  for \<^verbatim>\<open>null\<close>), \<open>ttsAudio_src\<close> the \<^verbatim>\<open>src\<close> attribute as set. The source text and the
  translated text are text areas (line 77 styles the text areas of the page, line 47
  selects the translated text), so a string assigned to them reads back with its line
  breaks normalised. \<open>timers\<close> are the pending \<^verbatim>\<open>setTimeout\<close> callbacks with their
  delays.
\<close>

record page =
  health_text :: jstring
  health_class :: jstring
  srcText :: jstring
  outText :: jstring
  srcLang :: jstring
  tgtLang :: select_el
  langInfo :: jstring
  alerts :: "alert_div list"
  audioInput :: "audio_file list option"
  ttsText :: jstring
  ttsAudio_src :: jstring
  ttsAudio_display :: jstring
  status_text :: jstring
  status_class :: jstring
  status_display :: jstring
  textareas_selectable :: bool
  timers :: "(nat \<times> timer) list"
  effects :: "effect list"

text \<open>\<^verbatim>\<open>a || b\<close> on two strings.\<close>

definition str_or :: "jstring \<Rightarrow> jstring \<Rightarrow> jstring" where
  "str_or a b = (if a = [] then b else a)"

definition fetch :: "request \<Rightarrow> page \<Rightarrow> page" where
  "fetch rq s = s\<lparr>effects := effects s @ [Fetch rq]\<rparr>"

text \<open>
  A sequence of statements either runs to its end or throws; in both cases the
  assignments made so far stay.
\<close>

datatype tried = Ran page | Threw page

text \<open>A step that gives a value or throws, and what goes on with the value.\<close>

definition trying :: "'a option \<Rightarrow> page \<Rightarrow> ('a \<Rightarrow> tried) \<Rightarrow> tried" where
  "trying x s cont = (case x of None \<Rightarrow> Threw s | Some v \<Rightarrow> cont v)"

text \<open>Reading \<open>j.k\<close> and going on with the value.\<close>

definition reading :: "json \<Rightarrow> jstring \<Rightarrow> page \<Rightarrow> (json \<Rightarrow> tried) \<Rightarrow> tried" where
  "reading j k s cont = (case get_prop j k of None \<Rightarrow> Threw s | Some v \<Rightarrow> cont v)"

text \<open>One statement after another: the second runs when the first did not throw.\<close>

definition and_then :: "tried \<Rightarrow> (page \<Rightarrow> tried) \<Rightarrow> tried" where
  "and_then t next = (case t of Ran s \<Rightarrow> next s | Threw s \<Rightarrow> Threw s)"

text \<open>\<^verbatim>\<open>try { ... } catch (e) { ... }\<close>: the handler runs on the page as it is at the throw.\<close>

definition caught :: "tried \<Rightarrow> (page \<Rightarrow> page) \<Rightarrow> page" where
  "caught t handler = (case t of Ran s \<Rightarrow> s | Threw s \<Rightarrow> handler s)"

text \<open>Statements outside a \<^verbatim>\<open>try\<close> block: a throw ends the function there.\<close>

definition returned :: "tried \<Rightarrow> page" where
  "returned t = (case t of Ran s \<Rightarrow> s | Threw s \<Rightarrow> s)"

subsection \<open>The handlers\<close>

text \<open>Lines 24 to 32.\<close>

definition showStatus :: "jstring \<Rightarrow> jstring \<Rightarrow> nat \<Rightarrow> page \<Rightarrow> page" where
  "showStatus message type duration s =
     s\<lparr>status_text := message,
       status_class := lit ''status-bar '' @ type,
       status_display := lit ''block'',
       timers := timers s @ [(duration, HideStatus)]\<rparr>"

text \<open>
  Lines 35 to 51. The argument says whether the clipboard write succeeds; when it does
  not, the handler selects the translated text and copies the selection.
\<close>

definition copyTranslation :: "bool \<Rightarrow> page \<Rightarrow> page" where
  "copyTranslation clipboard_ok s =
     (let text = trim (outText s) in
      if text = [] then showStatus msg_nothing_to_copy (lit ''error'') 3000 s
      else if clipboard_ok
        then showStatus msg_copied (lit ''success'') 3000
               (s\<lparr>effects := effects s @ [ClipboardWrite text]\<rparr>)
      else showStatus msg_copied (lit ''success'') 3000
             (s\<lparr>effects := effects s @ [ExecCopy (outText s)]\<rparr>))"

text \<open>Lines 54 to 72. The argument is \<^verbatim>\<open>new Date().getTime()\<close>.\<close>

definition downloadTranslation :: "int \<Rightarrow> page \<Rightarrow> page" where
  "downloadTranslation now s =
     (let text = trim (outText s) in
      if text = [] then showStatus msg_nothing_to_download (lit ''error'') 3000 s
      else showStatus msg_downloaded (lit ''success'') 3000
             (s\<lparr>effects := effects s @
                  [Download (lit ''translation_'' @ decimal now @ lit ''.txt'') text]\<rparr>))"

text \<open>Lines 75 to 84.\<close>

definition enableTextSelection :: "page \<Rightarrow> page" where
  "enableTextSelection s = s\<lparr>textareas_selectable := True\<rparr>"

text \<open>Lines 86 to 89.\<close>

definition setBadge :: "jstring \<Rightarrow> bool \<Rightarrow> page \<Rightarrow> page" where
  "setBadge text ok s =
     s\<lparr>health_text := text,
       health_class := lit ''badge'' @ (if ok then [] else lit '' alert'')\<rparr>"

text \<open>Lines 91 to 99.\<close>

definition checkHealth_try :: "response \<Rightarrow> page \<Rightarrow> tried" where
  "checkHealth_try r s =
     (case r of
        Rejected \<Rightarrow> Threw s
      | NotJson \<Rightarrow> Threw s
      | Body j \<Rightarrow>
          reading j (lit ''status'') s (\<lambda>status.
            if status = JStr (lit ''healthy'') then Ran (setBadge badge_ok True s)
            else Ran (setBadge (lit ''Server issue'') False s)))"

definition checkHealth :: "response \<Rightarrow> page \<Rightarrow> page" where
  "checkHealth r s =
     (case checkHealth_try r (fetch GetHealth s) of
        Ran s' \<Rightarrow> s'
      | Threw s' \<Rightarrow> setBadge (lit ''Server unreachable'') False s')"

text \<open>
  Lines 101 to 107. The message is any value; the assignment to \<^verbatim>\<open>textContent\<close> on
  line 104 converts it, and when that throws the alerts are not touched.
\<close>

definition showAlert :: "json \<Rightarrow> jstring \<Rightarrow> page \<Rightarrow> tried" where
  "showAlert msg type s =
     trying (text_content_string msg) s (\<lambda>text.
       Ran (s\<lparr>alerts := [\<lparr>alert_class = type, alert_text = text\<rparr>]\<rparr>))"

text \<open>
  Lines 114 to 119: the callback of \<^verbatim>\<open>forEach\<close>, on one entry. When the conversion of
  the name on line 116 throws, the option is not appended.
\<close>

definition add_language :: "page \<Rightarrow> jstring \<times> json \<Rightarrow> tried" where
  "add_language s entry =
     (case entry of (code, name) \<Rightarrow>
        trying (text_content_string name) s (\<lambda>text.
          Ran (s\<lparr>tgtLang :=
                  appendChild
                    \<lparr>opt_value = code, opt_text = text,
                     opt_selected = (code = lit ''en''), opt_disabled = False\<rparr>
                    (tgtLang s)\<rparr>)))"

text \<open>\<^verbatim>\<open>forEach\<close> over the entries: a throw in the callback ends the loop.\<close>

fun forEach_language :: "page \<Rightarrow> (jstring \<times> json) list \<Rightarrow> tried" where
  "forEach_language s [] = Ran s"
| "forEach_language s (e # es) =
     (case add_language s e of
        Ran s' \<Rightarrow> forEach_language s' es
      | Threw s' \<Rightarrow> Threw s')"

text \<open>Lines 110 to 120, the \<^verbatim>\<open>try\<close> block of \<^verbatim>\<open>loadLanguages\<close>.\<close>

definition loadLanguages_try :: "response \<Rightarrow> page \<Rightarrow> tried" where
  "loadLanguages_try r s =
     (case r of
        Rejected \<Rightarrow> Threw s
      | NotJson \<Rightarrow> Threw s
      | Body j \<Rightarrow>
          (let s1 = s\<lparr>tgtLang := (tgtLang s)\<lparr>sel_options := []\<rparr>\<rparr> in
           reading j (lit ''languages'') s1 (\<lambda>languages.
             trying (entries languages) s1 (\<lambda>es.
               and_then (forEach_language s1 es) (\<lambda>s2.
                 reading j (lit ''total'') s2 (\<lambda>total.
                   trying (ToString total) s2 (\<lambda>n.
                     Ran (s2\<lparr>langInfo := lit ''Loaded '' @ n @ lit '' languages.''\<rparr>))))))))"

text \<open>Lines 109 to 124.\<close>

definition loadLanguages :: "response \<Rightarrow> page \<Rightarrow> page" where
  "loadLanguages r s =
     caught (loadLanguages_try r (fetch GetLanguages s))
       (\<lambda>s'. returned (showAlert (JStr (lit ''Failed to load languages'')) (lit ''alert'') s'))"

text \<open>Lines 150 and 151, and the same on lines 189, 190 and 218, 219: the \<^verbatim>\<open>catch\<close> blocks.\<close>

definition network_error :: "page \<Rightarrow> page" where
  "network_error s =
     returned
       (and_then (showAlert (JStr (lit ''Network error'')) (lit ''alert'') s)
          (\<lambda>s'. Ran (showStatus msg_network_error (lit ''error'') 3000 s')))"

text \<open>
  Lines 134 to 148, the \<^verbatim>\<open>try\<close> block of \<^verbatim>\<open>translate\<close>. The assignment of line 142
  and each substitution of the template of line 143 convert a value to a string.
\<close>

definition translate_try :: "response \<Rightarrow> page \<Rightarrow> tried" where
  "translate_try r s =
     (case r of
        Rejected \<Rightarrow> Threw s
      | NotJson \<Rightarrow> Threw s
      | Body j \<Rightarrow>
          reading j (lit ''success'') s (\<lambda>success.
            if truthy success then
              reading j (lit ''translated_text'') s (\<lambda>translated_text.
                trying (value_string translated_text) s (\<lambda>text.
                  let s1 = s\<lparr>outText := normalize_newlines text\<rparr> in
                  reading j (lit ''source_language'') s1 (\<lambda>source_language.
                    trying (ToString source_language) s1 (\<lambda>source.
                      reading j (lit ''target_language'') s1 (\<lambda>target_language.
                        trying (ToString target_language) s1 (\<lambda>target.
                          Ran (showStatus msg_translated (lit ''success'') 3000
                                 (s1\<lparr>langInfo :=
                                       lit ''Detected: '' @ source @ arrow @ target\<rparr>))))))))
            else
              reading j (lit ''error'') s (\<lambda>error.
                and_then
                  (showAlert (js_or error (JStr (lit ''Translation failed''))) (lit ''alert'') s)
                  (\<lambda>s1. Ran (showStatus msg_translate_failed (lit ''error'') 3000 s1)))))"

text \<open>Lines 126 to 153.\<close>

definition translate :: "response \<Rightarrow> page \<Rightarrow> page" where
  "translate r s =
     (let text = trim (str_or (srcText s) []);
          source = str_or (srcLang s) (lit ''auto'');
          target = sel_value (tgtLang s)
      in
      if text = []
      then returned (showAlert (JStr (lit ''Please enter text to translate'')) (lit ''alert'') s)
      else
        caught
          (translate_try r
             (fetch (PostTranslate text source target)
                (showStatus msg_translating (lit ''info'') 3000 s)))
          network_error)"

text \<open>
  Lines 155 to 160. The value moved into a text area was read from one, so it is
  stored as it is.
\<close>

definition swap :: "page \<Rightarrow> page" where
  "swap s =
     (let tmp = srcText s in
      showStatus msg_swapped (lit ''info'') 2000
        (s\<lparr>srcText := outText s, outText := str_or tmp []\<rparr>))"

text \<open>Lines 162 to 168.\<close>

definition clearAll :: "page \<Rightarrow> page" where
  "clearAll s =
     showStatus msg_cleared (lit ''info'') 2000
       (s\<lparr>srcText := [], outText := [], alerts := [], langInfo := []\<rparr>)"

text \<open>Lines 177 to 187, the \<^verbatim>\<open>try\<close> block of \<^verbatim>\<open>stt\<close>.\<close>

definition stt_try :: "response \<Rightarrow> page \<Rightarrow> tried" where
  "stt_try r s =
     (case r of
        Rejected \<Rightarrow> Threw s
      | NotJson \<Rightarrow> Threw s
      | Body j \<Rightarrow>
          reading j (lit ''success'') s (\<lambda>success.
            if truthy success then
              reading j (lit ''text'') s (\<lambda>text.
                trying (value_string text) s (\<lambda>transcript.
                  and_then
                    (showAlert (JStr (lit ''Transcribed successfully'')) (lit ''success'')
                       (s\<lparr>srcText := normalize_newlines transcript\<rparr>))
                    (\<lambda>s1. Ran (showStatus msg_transcribed (lit ''success'') 3000 s1))))
            else
              reading j (lit ''error'') s (\<lambda>error.
                and_then (showAlert (js_or error (JStr (lit ''STT failed''))) (lit ''alert'') s)
                  (\<lambda>s1. Ran (showStatus msg_stt_failed (lit ''error'') 3000 s1)))))"

text \<open>Lines 170 to 192.\<close>

definition stt :: "response \<Rightarrow> page \<Rightarrow> page" where
  "stt r s =
     (case audioInput s of
        None \<Rightarrow> returned (showAlert (JStr (lit ''Select an audio file'')) (lit ''alert'') s)
      | Some [] \<Rightarrow> returned (showAlert (JStr (lit ''Select an audio file'')) (lit ''alert'') s)
      | Some (f # fs) \<Rightarrow>
          caught
            (stt_try r (fetch (PostSTT f) (showStatus msg_transcribing (lit ''info'') 3000 s)))
            network_error)"

text \<open>
  Lines 201 to 216, the \<^verbatim>\<open>try\<close> block of \<^verbatim>\<open>tts\<close>; \<open>tts_failed\<close> is its \<^verbatim>\<open>else\<close>
  branch. \<^verbatim>\<open>j.audio_url\<close> is read only when \<^verbatim>\<open>j.success\<close> is truthy; the assignment of
  line 209 converts it before anything is played; a rejection of \<^verbatim>\<open>play()\<close> is swallowed.
\<close>

definition tts_failed :: "json \<Rightarrow> page \<Rightarrow> tried" where
  "tts_failed j s =
     reading j (lit ''error'') s (\<lambda>error.
       and_then (showAlert (js_or error (JStr (lit ''TTS failed''))) (lit ''alert'') s)
         (\<lambda>s1. Ran (showStatus msg_tts_failed (lit ''error'') 3000 s1)))"

definition tts_try :: "response \<Rightarrow> page \<Rightarrow> tried" where
  "tts_try r s =
     (case r of
        Rejected \<Rightarrow> Threw s
      | NotJson \<Rightarrow> Threw s
      | Body j \<Rightarrow>
          reading j (lit ''success'') s (\<lambda>success.
            if truthy success then
              reading j (lit ''audio_url'') s (\<lambda>audio_url.
                if truthy audio_url then
                  trying (ToString audio_url) s (\<lambda>url.
                    Ran (showStatus msg_synthesised (lit ''success'') 3000
                           (s\<lparr>ttsAudio_src := usv_string url,
                              ttsAudio_display := [],
                              effects := effects s @ [PlayAudio]\<rparr>)))
                else tts_failed j s)
            else tts_failed j s))"

text \<open>Lines 194 to 221.\<close>

definition tts :: "response \<Rightarrow> page \<Rightarrow> page" where
  "tts r s =
     (let text = trim (str_or (str_or (ttsText s) (srcText s)) []);
          language = str_or (sel_value (tgtLang s)) (lit ''en'')
      in
      if text = [] then returned (showAlert (JStr (lit ''Enter text for TTS'')) (lit ''alert'') s)
      else
        caught
          (tts_try r
             (fetch (PostTTS text language)
                (showStatus msg_synthesising (lit ''info'') 3000 s)))
          network_error)"

text \<open>Lines 29 to 31 and 243 to 245: the two callbacks given to \<^verbatim>\<open>setTimeout\<close>.\<close>

definition run_timer :: "timer \<Rightarrow> page \<Rightarrow> page" where
  "run_timer cb s =
     (case cb of
        HideStatus \<Rightarrow> s\<lparr>status_display := lit ''none''\<rparr>
      | ShowWelcome \<Rightarrow> showStatus msg_welcome (lit ''info'') 2500 s)"

text \<open>
  Lines 224 to 246, the handler of \<^verbatim>\<open>DOMContentLoaded\<close>, given the outcomes of the
  health and of the languages request. It registers the click handlers below.
\<close>

definition onDOMContentLoaded :: "response \<Rightarrow> response \<Rightarrow> page \<Rightarrow> page" where
  "onDOMContentLoaded rh rl s =
     (let s1 = checkHealth rh s;
          s2 = loadLanguages rl s1;
          s3 = enableTextSelection s2
      in s3\<lparr>timers := timers s3 @ [(1000, ShowWelcome)]\<rparr>)"

subsection \<open>The life of a page\<close>

text \<open>
  What happens to a loaded page: a click on one of the seven buttons (with the outcome of
  the request the handler makes, if any), a pending timer firing, or the user editing a
  text field, choosing a language or choosing audio files.
\<close>

datatype event =
    ClickTranslate response
  | ClickSwap
  | ClickClear
  | ClickSTT response
  | ClickTTS response
  | ClickCopy bool
  | ClickDownload int
  | TimerFires nat
  | TypeSource jstring
  | TypeTranslated jstring
  | TypeTts jstring
  | ChooseSource jstring
  | ChooseTarget nat
  | ChooseFiles "audio_file list"

text \<open>The pending timer at position \<open>i\<close> fires and is no longer pending.\<close>

definition timer_fires :: "nat \<Rightarrow> page \<Rightarrow> page" where
  "timer_fires i s =
     (if i < length (timers s)
      then run_timer (snd (timers s ! i))
             (s\<lparr>timers := take i (timers s) @ drop (Suc i) (timers s)\<rparr>)
      else s)"

text \<open>
  The user selects option \<open>i\<close> of the target selector; in a single selection the other
  options are deselected.
\<close>

definition choose_option :: "nat \<Rightarrow> select_el \<Rightarrow> select_el" where
  "choose_option i sel =
     (let xs = sel_options sel in
      if i < length xs then
        sel\<lparr>sel_options :=
              (if sel_multiple sel then xs[i := (xs ! i)\<lparr>opt_selected := True\<rparr>]
               else map (\<lambda>x. x\<lparr>opt_selected := False\<rparr>) (take i xs) @
                    (xs ! i)\<lparr>opt_selected := True\<rparr> #
                    map (\<lambda>x. x\<lparr>opt_selected := False\<rparr>) (drop (Suc i) xs))\<rparr>
      else sel)"

fun handle :: "event \<Rightarrow> page \<Rightarrow> page" where
  "handle (ClickTranslate r) s = translate r s"
| "handle ClickSwap s = swap s"
| "handle ClickClear s = clearAll s"
| "handle (ClickSTT r) s = stt r s"
| "handle (ClickTTS r) s = tts r s"
| "handle (ClickCopy ok) s = copyTranslation ok s"
| "handle (ClickDownload now) s = downloadTranslation now s"
| "handle (TimerFires i) s = timer_fires i s"
| "handle (TypeSource t) s = s\<lparr>srcText := t\<rparr>"
| "handle (TypeTranslated t) s = s\<lparr>outText := t\<rparr>"
| "handle (TypeTts t) s = s\<lparr>ttsText := t\<rparr>"
| "handle (ChooseSource c) s = s\<lparr>srcLang := c\<rparr>"
| "handle (ChooseTarget i) s = s\<lparr>tgtLang := choose_option i (tgtLang s)\<rparr>"
| "handle (ChooseFiles fs) s = s\<lparr>audioInput := Some fs\<rparr>"

text \<open>A page from \<^verbatim>\<open>DOMContentLoaded\<close> on, through a sequence of events.\<close>

definition lifetime :: "response \<Rightarrow> response \<Rightarrow> event list \<Rightarrow> page \<Rightarrow> page" where
  "lifetime rh rl evs s = foldl (\<lambda>s' e. handle e s') (onDOMContentLoaded rh rl s) evs"

subsection \<open>Observations\<close>

text \<open>The requests a page has issued, oldest first.\<close>

fun request_of :: "effect \<Rightarrow> request list" where
  "request_of (Fetch rq) = [rq]"
| "request_of e = []"

definition requests :: "page \<Rightarrow> request list" where
  "requests s = concat (map request_of (effects s))"

definition health_requests :: "page \<Rightarrow> nat" where
  "health_requests s = length (filter (\<lambda>rq. rq = GetHealth) (requests s))"

text \<open>The value of \<open>j.k\<close>, \<^verbatim>\<open>undefined\<close> where the read throws.\<close>

definition field :: "json \<Rightarrow> jstring \<Rightarrow> json" where
  "field j k = (case get_prop j k of None \<Rightarrow> JUndefined | Some v \<Rightarrow> v)"

text \<open>One alert of class \<^verbatim>\<open>alert\<close> with the given text, as \<open>showAlert\<close> leaves it.\<close>

definition alert_shown :: "jstring \<Rightarrow> alert_div list" where
  "alert_shown m = [\<lparr>alert_class = lit ''alert'', alert_text = m\<rparr>]"

text \<open>
  The text an alert shows for a message: its conversion, and \<^verbatim>\<open>Network error\<close> when
  the conversion throws and the \<^verbatim>\<open>catch\<close> block takes over.
\<close>

definition alert_text_for :: "json \<Rightarrow> jstring" where
  "alert_text_for msg =
     (case text_content_string msg of None \<Rightarrow> lit ''Network error'' | Some m \<Rightarrow> m)"

text \<open>Whether the name of an entry of the language map converts to a string.\<close>

definition name_converts :: "jstring \<times> json \<Rightarrow> bool" where
  "name_converts entry \<longleftrightarrow> text_content_string (snd entry) \<noteq> None"

text \<open>
  An option as lines 115 to 117 build it from an entry of the language map whose name
  converts.
\<close>

definition language_option :: "jstring \<times> json \<Rightarrow> select_option" where
  "language_option entry =
     \<lparr>opt_value = fst entry,
      opt_text = (case text_content_string (snd entry) of None \<Rightarrow> [] | Some t \<Rightarrow> t),
      opt_selected = (fst entry = lit ''en''), opt_disabled = False\<rparr>"



subsection \<open>Example pages and responses\<close>

text \<open>
  A page before \<^verbatim>\<open>DOMContentLoaded\<close>: empty fields, an empty drop-down selector, no
  file chosen.
\<close>

definition page0 :: page where
  "page0 =
     \<lparr>health_text = [], health_class = lit ''badge'', srcText = [], outText = [],
      srcLang = [], tgtLang = \<lparr>sel_multiple = False, sel_size = 1, sel_options = []\<rparr>,
      langInfo = [], alerts = [], audioInput = Some [], ttsText = [], ttsAudio_src = [],
      ttsAudio_display = lit ''none'', status_text = [], status_class = lit ''status-bar'',
      status_display = lit ''none'', textareas_selectable = False, timers = [],
      effects = []\<rparr>"

definition healthy_body :: json where
  "healthy_body = JObj [(lit ''status'', JStr (lit ''healthy''))]"

text \<open>The language map of the specification's example.\<close>

definition en_fr :: "(jstring \<times> json) list" where
  "en_fr = [(lit ''en'', JStr (lit ''English'')), (lit ''fr'', JStr (lit ''French''))]"

definition languages_body :: json where
  "languages_body = JObj [(lit ''languages'', JObj en_fr), (lit ''total'', JNum (lit ''2''))]"

definition translated_body :: json where
  "translated_body =
     JObj [(lit ''success'', JBool True), (lit ''translated_text'', JStr (lit ''bonjour'')),
           (lit ''source_language'', JStr (lit ''en'')),
           (lit ''target_language'', JStr (lit ''fr''))]"

text \<open>Two failure responses: one with a number as error, one with a message.\<close>

definition numeric_error_body :: json where
  "numeric_error_body = JObj [(lit ''success'', JBool False), (lit ''error'', JNum (lit ''42''))]"

definition quota_error_body :: json where
  "quota_error_body =
     JObj [(lit ''success'', JBool False), (lit ''error'', JStr (lit ''quota exceeded''))]"

text \<open>Two text-to-speech responses: success without a URL, and success with one.\<close>

definition no_url_body :: json where
  "no_url_body = JObj [(lit ''success'', JBool True)]"

definition audio_body :: json where
  "audio_body = JObj [(lit ''success'', JBool True), (lit ''audio_url'', JStr (lit ''/a.mp3''))]"

text \<open>A page whose selector holds a selected option from the markup.\<close>

definition stale_page :: page where
  "stale_page =
     page0\<lparr>tgtLang :=
       \<lparr>sel_multiple = False, sel_size = 1,
        sel_options = [\<lparr>opt_value = lit ''xx'', opt_text = lit ''Old'',
                        opt_selected = True, opt_disabled = False\<rparr>]\<rparr>\<rparr>"

text \<open>A session: type a text, translate it, let the first timer fire, swap, ask for speech.\<close>

definition example_session :: "event list" where
  "example_session =
     [TypeSource (lit ''hi''), ClickTranslate (Body translated_body), TimerFires 0,
      ClickSwap, ClickTTS Rejected]"

text \<open>A value whose conversion to a string throws: an object with a key \<^verbatim>\<open>toString\<close>.\<close>

definition unprintable :: json where
  "unprintable = JObj [(lit ''toString'', JNum (lit ''1''))]"

text \<open>
  Two translate responses: one whose text holds a CR LF, one whose source language
  does not convert.
\<close>

definition crlf_body :: json where
  "crlf_body =
     JObj [(lit ''success'', JBool True), (lit ''translated_text'', JStr [0x61, 0xD, 0xA, 0x62]),
           (lit ''source_language'', JStr (lit ''en'')),
           (lit ''target_language'', JStr (lit ''fr''))]"

definition unprintable_language_body :: json where
  "unprintable_language_body =
     JObj [(lit ''success'', JBool True), (lit ''translated_text'', JStr (lit ''bonjour'')),
           (lit ''source_language'', unprintable),
           (lit ''target_language'', JStr (lit ''fr''))]"

text \<open>A failure response whose error does not convert to a string.\<close>

definition unprintable_error_body :: json where
  "unprintable_error_body = JObj [(lit ''success'', JBool False), (lit ''error'', unprintable)]"

text \<open>
  Two more text-to-speech responses: success without a URL and with an error that does
  not convert, and success with a URL that does not convert.
\<close>

definition no_url_unprintable_body :: json where
  "no_url_unprintable_body = JObj [(lit ''success'', JBool True), (lit ''error'', unprintable)]"

definition unprintable_url_body :: json where
  "unprintable_url_body = JObj [(lit ''success'', JBool True), (lit ''audio_url'', unprintable)]"

text \<open>A language map with a name that does not convert, between two that do.\<close>

definition en_xx_fr :: "(jstring \<times> json) list" where
  "en_xx_fr =
     [(lit ''en'', JStr (lit ''English'')), (lit ''xx'', unprintable),
      (lit ''fr'', JStr (lit ''French''))]"

definition unprintable_name_body :: json where
  "unprintable_name_body = JObj [(lit ''languages'', JObj en_xx_fr), (lit ''total'', JNum (lit ''3''))]"



section \<open>Properties\<close>

subsection \<open>Statements that may throw\<close>

lemma trying_simps [simp]:
  "trying None s cont = Threw s"
  "trying (Some v) s cont = cont v"
  by (simp_all add: trying_def)

lemma and_then_simps [simp]:
  "and_then (Ran s) next = next s"
  "and_then (Threw s) next = Threw s"
  by (simp_all add: and_then_def)

lemma caught_simps [simp]:
  "caught (Ran s) handler = s"
  "caught (Threw s) handler = handler s"
  by (simp_all add: caught_def)

lemma returned_simps [simp]:
  "returned (Ran s) = s"
  "returned (Threw s) = s"
  by (simp_all add: returned_def)

lemma str_or_Nil [simp]: "str_or a [] = a"
  by (simp add: str_or_def)

lemma text_content_string_JStr [simp]: "text_content_string (JStr m) = Some m"
  by (simp add: text_content_string_def)

lemma value_string_JStr [simp]: "value_string (JStr m) = Some m"
  by (simp add: value_string_def)

lemma showAlert_string [simp]:
  "showAlert (JStr m) type s = Ran (s\<lparr>alerts := [\<lparr>alert_class = type, alert_text = m\<rparr>]\<rparr>)"
  by (simp add: showAlert_def)

lemma showAlert_cases:
  "showAlert msg (lit ''alert'') s =
     (case text_content_string msg of
        None \<Rightarrow> Threw s
      | Some m \<Rightarrow> Ran (s\<lparr>alerts := alert_shown m\<rparr>))"
  by (simp add: showAlert_def alert_shown_def split: option.splits)

lemma network_error_eq:
  "network_error s =
     showStatus msg_network_error (lit ''error'') 3000
       (s\<lparr>alerts := alert_shown (lit ''Network error'')\<rparr>)"
  by (simp add: network_error_def alert_shown_def)

lemma get_prop_defined: "get_prop j k = Some v \<Longrightarrow> get_prop j k' = Some (field j k')"
  by (cases j) (auto simp: field_def split: option.splits)

lemma get_prop_field: "get_prop j k = Some v \<Longrightarrow> field j k = v"
  by (simp add: field_def)

lemma reading_defined: "get_prop j k = Some v \<Longrightarrow> reading j k' s cont = cont (field j k')"
  by (simp add: reading_def get_prop_defined [of j k v k'])

lemma reading_thrown: "get_prop j k = None \<Longrightarrow> reading j k' s cont = Threw s"
  by (cases j) (auto simp: reading_def split: option.splits)

lemma field_thrown: "get_prop j k = None \<Longrightarrow> field j k' = JUndefined"
  by (cases j) (auto simp: field_def split: option.splits)

subsection \<open>What the handlers leave alone\<close>

lemmas try_defs =
  reading_def trying_def and_then_def caught_def returned_def showAlert_def showStatus_def
  fetch_def network_error_def Let_def

lemma effects_translate:
  "effects (translate r s) =
     (if trim (srcText s) = [] then effects s
      else effects s @ [Fetch (PostTranslate (trim (srcText s)) (str_or (srcLang s) (lit ''auto''))
                                 (sel_value (tgtLang s)))])"
  by (simp add: translate_def translate_try_def try_defs split: response.splits option.splits)


lemma effects_stt:
  "effects (stt r s) =
     (case audioInput s of
        None \<Rightarrow> effects s
      | Some [] \<Rightarrow> effects s
      | Some (f # fs) \<Rightarrow> effects s @ [Fetch (PostSTT f)])"
  by (simp add: stt_def stt_try_def try_defs split: response.splits option.splits list.splits)


lemma requests_tts:
  "requests (tts r s) =
     (if trim (str_or (ttsText s) (srcText s)) = [] then requests s
      else requests s @ [PostTTS (trim (str_or (ttsText s) (srcText s)))
                           (str_or (sel_value (tgtLang s)) (lit ''en''))])"
  by (simp add: requests_def tts_def tts_try_def tts_failed_def try_defs
      split: response.splits option.splits)


lemma effects_checkHealth: "effects (checkHealth r s) = effects s @ [Fetch GetHealth]"
  by (simp add: checkHealth_def checkHealth_try_def setBadge_def try_defs
      split: response.splits option.splits)

subsection \<open>Translating\<close>

lemma translate_empty:
  "trim (srcText s) = [] \<Longrightarrow>
   translate r s = s\<lparr>alerts := alert_shown (lit ''Please enter text to translate'')\<rparr>"
  by (simp add: translate_def alert_shown_def)

lemma tts_empty:
  "trim (str_or (ttsText s) (srcText s)) = [] \<Longrightarrow>
   tts r s = s\<lparr>alerts := alert_shown (lit ''Enter text for TTS'')\<rparr>"
  by (simp add: tts_def alert_shown_def)

text \<open>
  Claim C2. When the trimmed source text is empty, \<open>translate\<close> changes nothing but the
  alerts, which become the single prompt \<^verbatim>\<open>Please enter text to translate\<close>; no request
  is made. The same holds for \<open>tts\<close> with the prompt \<^verbatim>\<open>Enter text for TTS\<close>, its
  input being the text-to-speech field or, when that is empty, the source text.
\<close>

theorem empty_text_no_request:
  "(trim (srcText s) = [] \<longrightarrow>
      translate r s = s\<lparr>alerts := alert_shown (lit ''Please enter text to translate'')\<rparr> \<and>
      effects (translate r s) = effects s) \<and>
   (trim (str_or (ttsText s) (srcText s)) = [] \<longrightarrow>
      tts r s = s\<lparr>alerts := alert_shown (lit ''Enter text for TTS'')\<rparr> \<and>
      effects (tts r s) = effects s)"
  by (simp add: translate_empty tts_empty)

theorem empty_text_no_request_witness:
  "trim (srcText (page0\<lparr>srcText := lit ''  ''\<rparr>)) = [] \<and>
   translate (Body translated_body) (page0\<lparr>srcText := lit ''  ''\<rparr>) =
     page0\<lparr>srcText := lit ''  '', alerts := alert_shown (lit ''Please enter text to translate'')\<rparr> \<and>
   trim (str_or (ttsText (page0\<lparr>srcText := lit ''  ''\<rparr>)) (srcText (page0\<lparr>srcText := lit ''  ''\<rparr>))) = [] \<and>
   tts (Body translated_body) (page0\<lparr>srcText := lit ''  ''\<rparr>) =
     page0\<lparr>srcText := lit ''  '', alerts := alert_shown (lit ''Enter text for TTS'')\<rparr>"
proof -
  have a: "trim (srcText (page0\<lparr>srcText := lit ''  ''\<rparr>)) = []"
    by (simp add: trim_def is_ws_def lit_def)
  have b: "trim (str_or (ttsText (page0\<lparr>srcText := lit ''  ''\<rparr>)) (srcText (page0\<lparr>srcText := lit ''  ''\<rparr>))) = []"
    by (simp add: trim_def is_ws_def lit_def str_or_def page0_def)
  show ?thesis
    using a b
      empty_text_no_request [of "page0\<lparr>srcText := lit ''  ''\<rparr>" "Body translated_body"]
    by simp
qed


lemma translate_ok:
  assumes "trim (srcText s) \<noteq> []"
    and "get_prop j (lit ''success'') = Some ok" and "truthy ok"
  shows "translate (Body j) s =
    (let s0 = fetch (PostTranslate (trim (srcText s)) (str_or (srcLang s) (lit ''auto''))
                       (sel_value (tgtLang s)))
                (showStatus msg_translating (lit ''info'') 3000 s)
     in case value_string (field j (lit ''translated_text'')) of
          None \<Rightarrow> network_error s0
        | Some v \<Rightarrow>
            (let s1 = s0\<lparr>outText := normalize_newlines v\<rparr>
             in case ToString (field j (lit ''source_language'')) of
                  None \<Rightarrow> network_error s1
                | Some a \<Rightarrow>
                    (case ToString (field j (lit ''target_language'')) of
                       None \<Rightarrow> network_error s1
                     | Some b \<Rightarrow>
                         showStatus msg_translated (lit ''success'') 3000
                           (s1\<lparr>langInfo := lit ''Detected: '' @ a @ arrow @ b\<rparr>))))"
  using assms(1,3)
  by (simp add: translate_def translate_try_def reading_defined [OF assms(2)]
      get_prop_field [OF assms(2)] Let_def split: option.splits)

lemma translate_not_ok:
  assumes "trim (srcText s) \<noteq> []"
    and "get_prop j (lit ''success'') = Some ok" and "\<not> truthy ok"
  shows "translate (Body j) s =
    (let s0 = fetch (PostTranslate (trim (srcText s)) (str_or (srcLang s) (lit ''auto''))
                       (sel_value (tgtLang s)))
                (showStatus msg_translating (lit ''info'') 3000 s)
     in case text_content_string (js_or (field j (lit ''error'')) (JStr (lit ''Translation failed''))) of
          None \<Rightarrow> network_error s0
        | Some m \<Rightarrow> showStatus msg_translate_failed (lit ''error'') 3000 (s0\<lparr>alerts := alert_shown m\<rparr>))"
  using assms(1,3)
  by (simp add: translate_def translate_try_def reading_defined [OF assms(2)]
      get_prop_field [OF assms(2)] showAlert_cases Let_def split: option.splits)

lemma normalize_newlines_id: "0xD \<notin> set t \<Longrightarrow> normalize_newlines t = t"
  by (induction t rule: normalize_newlines.induct) auto

lemma alerts_showStatus [simp]: "alerts (showStatus m t d s) = alerts s"
  by (simp add: showStatus_def)

lemma alerts_network_error [simp]: "alerts (network_error s) = alert_shown (lit ''Network error'')"
  by (simp add: network_error_eq)

lemma outText_network_error [simp]: "outText (network_error s) = outText s"
  by (simp add: network_error_eq showStatus_def)

lemma langInfo_network_error [simp]: "langInfo (network_error s) = langInfo s"
  by (simp add: network_error_eq showStatus_def)

text \<open>
  Claim C1, as amended. A translate request is made when the trimmed source text is not
  empty. When its response parses to a value whose \<^verbatim>\<open>success\<close> is truthy, the translated
  text reads the response's \<^verbatim>\<open>translated_text\<close> converted to a string, with every
  CR LF and CR turned into LF: exactly that value when it is a string without a CR. The
  language line is \<^verbatim>\<open>Detected: \<close> followed by the string conversions of the response's
  \<^verbatim>\<open>source_language\<close> and \<^verbatim>\<open>target_language\<close> with the arrow between them. When one of
  the three conversions throws, the fields not yet assigned stay as they were and the
  alert shows \<^verbatim>\<open>Network error\<close>.
\<close>

theorem translate_success:
  assumes "trim (srcText s) \<noteq> []"
    and "get_prop j (lit ''success'') = Some ok" and "truthy ok"
  shows "(\<forall>v. value_string (field j (lit ''translated_text'')) = Some v \<longrightarrow>
            outText (translate (Body j) s) = normalize_newlines v) \<and>
         (\<forall>t. field j (lit ''translated_text'') = JStr t \<longrightarrow> 0xD \<notin> set t \<longrightarrow>
            outText (translate (Body j) s) = t) \<and>
         (\<forall>v a b. value_string (field j (lit ''translated_text'')) = Some v \<longrightarrow>
            ToString (field j (lit ''source_language'')) = Some a \<longrightarrow>
            ToString (field j (lit ''target_language'')) = Some b \<longrightarrow>
            langInfo (translate (Body j) s) = lit ''Detected: '' @ a @ arrow @ b) \<and>
         (value_string (field j (lit ''translated_text'')) = None \<longrightarrow>
            outText (translate (Body j) s) = outText s) \<and>
         (value_string (field j (lit ''translated_text'')) = None \<or>
          ToString (field j (lit ''source_language'')) = None \<or>
          ToString (field j (lit ''target_language'')) = None \<longrightarrow>
            langInfo (translate (Body j) s) = langInfo s \<and>
            alerts (translate (Body j) s) = alert_shown (lit ''Network error''))"
  by (auto simp: translate_ok [OF assms] Let_def showStatus_def fetch_def normalize_newlines_id
      split: option.splits)

text \<open>The definitions to unfold when a handler is run on a given page.\<close>

lemmas handler_defs =
  lifetime_def onDOMContentLoaded_def checkHealth_def checkHealth_try_def loadLanguages_def
  loadLanguages_try_def translate_def translate_try_def tts_def tts_try_def tts_failed_def
  stt_def stt_try_def swap_def timer_fires_def run_timer_def enableTextSelection_def try_defs
  setBadge_def add_language_def appendChild_def selectedness_setting_def sel_value_def
  str_or_def js_or_def value_string_def text_content_string_def requests_def
  health_requests_def alert_shown_def field_def trim_def is_ws_def lit_def

lemmas example_defs =
  page0_def healthy_body_def languages_body_def en_fr_def translated_body_def
  numeric_error_body_def quota_error_body_def no_url_body_def audio_body_def
  example_session_def unprintable_def crlf_body_def unprintable_language_body_def

text \<open>
  The claim as first stated has the translated text set to exactly the response's
  \<^verbatim>\<open>translated_text\<close> and the language line always set. A text with a CR LF reads
  back with an LF alone; and with a source language that does not convert, the language
  line is not set and the alert shows \<^verbatim>\<open>Network error\<close>.
\<close>

theorem translated_text_counterexample:
  "get_prop crlf_body (lit ''success'') = Some (JBool True) \<and>
   get_prop crlf_body (lit ''translated_text'') = Some (JStr [0x61, 0xD, 0xA, 0x62]) \<and>
   outText (translate (Body crlf_body) (page0\<lparr>srcText := lit ''hi''\<rparr>)) = [0x61, 0xA, 0x62] \<and>
   [0x61, 0xA, 0x62] \<noteq> [0x61, 0xD, 0xA, 0x62 :: 16 word] \<and>
   get_prop unprintable_language_body (lit ''success'') = Some (JBool True) \<and>
   langInfo (translate (Body unprintable_language_body) (page0\<lparr>srcText := lit ''hi''\<rparr>)) = [] \<and>
   alerts (translate (Body unprintable_language_body) (page0\<lparr>srcText := lit ''hi''\<rparr>)) =
     alert_shown (lit ''Network error'')"
  by (simp add: handler_defs example_defs)

theorem translate_success_witness:
  "trim (srcText (page0\<lparr>srcText := lit ''hi''\<rparr>)) \<noteq> [] \<and>
   get_prop translated_body (lit ''success'') = Some (JBool True) \<and> truthy (JBool True) \<and>
   outText (translate (Body translated_body) (page0\<lparr>srcText := lit ''hi''\<rparr>)) = lit ''bonjour'' \<and>
   langInfo (translate (Body translated_body) (page0\<lparr>srcText := lit ''hi''\<rparr>)) =
     lit ''Detected: en'' @ arrow @ lit ''fr'' \<and>
   get_prop unprintable_language_body (lit ''success'') = Some (JBool True) \<and>
   ToString (field unprintable_language_body (lit ''source_language'')) = None \<and>
   outText (translate (Body unprintable_language_body) (page0\<lparr>srcText := lit ''hi''\<rparr>)) =
     lit ''bonjour'' \<and>
   langInfo (translate (Body unprintable_language_body) (page0\<lparr>srcText := lit ''hi''\<rparr>)) =
     langInfo (page0\<lparr>srcText := lit ''hi''\<rparr>) \<and>
   alerts (translate (Body unprintable_language_body) (page0\<lparr>srcText := lit ''hi''\<rparr>)) =
     alert_shown (lit ''Network error'')"
proof -
  have a: "trim (srcText (page0\<lparr>srcText := lit ''hi''\<rparr>)) \<noteq> []"
    by (simp add: trim_def is_ws_def lit_def)
  have b: "get_prop translated_body (lit ''success'') = Some (JBool True)"
    "get_prop unprintable_language_body (lit ''success'') = Some (JBool True)"
    by (simp_all add: translated_body_def unprintable_language_body_def lit_def)
  have c: "truthy (JBool True)"
    by simp
  have d: "value_string (field translated_body (lit ''translated_text'')) = Some (lit ''bonjour'')"
    "ToString (field translated_body (lit ''source_language'')) = Some (lit ''en'')"
    "ToString (field translated_body (lit ''target_language'')) = Some (lit ''fr'')"
    "value_string (field unprintable_language_body (lit ''translated_text'')) = Some (lit ''bonjour'')"
    "ToString (field unprintable_language_body (lit ''source_language'')) = None"
    by (simp_all add: translated_body_def unprintable_language_body_def unprintable_def field_def
        value_string_def lit_def)
  have e: "normalize_newlines (lit ''bonjour'') = lit ''bonjour''"
    "lit ''Detected: '' @ lit ''en'' @ arrow @ lit ''fr'' = lit ''Detected: en'' @ arrow @ lit ''fr''"
    by (simp_all add: lit_def)
  show ?thesis
    using a b c d
      translate_success [OF a b(1) c]
      translate_success [OF a b(2) c]
    by (simp add: e)
qed

subsection \<open>Speech to text\<close>

lemma stt_no_file:
  "audioInput s = None \<or> audioInput s = Some [] \<Longrightarrow>
   stt r s = s\<lparr>alerts := alert_shown (lit ''Select an audio file'')\<rparr>"
  by (auto simp: stt_def alert_shown_def)

lemma stt_not_ok:
  assumes "audioInput s = Some (f # fs)"
    and "get_prop j (lit ''success'') = Some ok" and "\<not> truthy ok"
  shows "stt (Body j) s =
    (let s0 = fetch (PostSTT f) (showStatus msg_transcribing (lit ''info'') 3000 s)
     in case text_content_string (js_or (field j (lit ''error'')) (JStr (lit ''STT failed''))) of
          None \<Rightarrow> network_error s0
        | Some m \<Rightarrow> showStatus msg_stt_failed (lit ''error'') 3000 (s0\<lparr>alerts := alert_shown m\<rparr>))"
  using assms(1,3)
  by (simp add: stt_def stt_try_def reading_defined [OF assms(2)]
      get_prop_field [OF assms(2)] showAlert_cases Let_def split: option.splits)


subsection \<open>Text to speech\<close>

lemma tts_ok:
  assumes "trim (str_or (ttsText s) (srcText s)) \<noteq> []"
    and "get_prop j (lit ''success'') = Some ok" and "truthy ok"
    and "truthy (field j (lit ''audio_url''))"
  shows "tts (Body j) s =
    (let s0 = fetch (PostTTS (trim (str_or (ttsText s) (srcText s)))
                       (str_or (sel_value (tgtLang s)) (lit ''en'')))
                (showStatus msg_synthesising (lit ''info'') 3000 s)
     in case ToString (field j (lit ''audio_url'')) of
          None \<Rightarrow> network_error s0
        | Some url \<Rightarrow>
            showStatus msg_synthesised (lit ''success'') 3000
              (s0\<lparr>ttsAudio_src := usv_string url, ttsAudio_display := [],
                  effects := effects s0 @ [PlayAudio]\<rparr>))"
  using assms(1,3,4)
  by (simp add: tts_def tts_try_def reading_defined [OF assms(2)] get_prop_field [OF assms(2)]
      Let_def split: option.splits)

lemma tts_not_ok:
  assumes "trim (str_or (ttsText s) (srcText s)) \<noteq> []"
    and "get_prop j (lit ''success'') = Some ok"
    and "\<not> (truthy ok \<and> truthy (field j (lit ''audio_url'')))"
  shows "tts (Body j) s =
    (let s0 = fetch (PostTTS (trim (str_or (ttsText s) (srcText s)))
                       (str_or (sel_value (tgtLang s)) (lit ''en'')))
                (showStatus msg_synthesising (lit ''info'') 3000 s)
     in case text_content_string (js_or (field j (lit ''error'')) (JStr (lit ''TTS failed''))) of
          None \<Rightarrow> network_error s0
        | Some m \<Rightarrow> showStatus msg_tts_failed (lit ''error'') 3000 (s0\<lparr>alerts := alert_shown m\<rparr>))"
  using assms(1,3)
  by (auto simp: tts_def tts_try_def tts_failed_def reading_defined [OF assms(2)]
      get_prop_field [OF assms(2)] showAlert_cases Let_def split: option.splits)

lemma tts_thrown:
  assumes "trim (str_or (ttsText s) (srcText s)) \<noteq> []"
    and "r = Rejected \<or> r = NotJson \<or> (\<exists>j. r = Body j \<and> get_prop j (lit ''success'') = None)"
  shows "tts r s =
    network_error
      (fetch (PostTTS (trim (str_or (ttsText s) (srcText s)))
                (str_or (sel_value (tgtLang s)) (lit ''en'')))
         (showStatus msg_synthesising (lit ''info'') 3000 s))"
  using assms by (auto simp: tts_def tts_try_def reading_thrown Let_def)

subsection \<open>Errors reported by the server\<close>

lemma effects_showStatus [simp]: "effects (showStatus m t d s) = effects s"
  by (simp add: showStatus_def)

lemma effects_network_error [simp]: "effects (network_error s) = effects s"
  by (simp add: network_error_eq)

lemma effects_setBadge [simp]: "effects (setBadge t ok s) = effects s"
  by (simp add: setBadge_def)

lemma effects_fetch [simp]: "effects (fetch rq s) = effects s @ [Fetch rq]"
  by (simp add: fetch_def)

lemma alerts_failure:
  "alerts (case text_content_string msg of
             None \<Rightarrow> network_error s0
           | Some m \<Rightarrow> showStatus status type d (s0\<lparr>alerts := alert_shown m\<rparr>)) =
   alert_shown (alert_text_for msg)"
  by (simp add: alert_text_for_def split: option.splits)

lemma alert_text_for_js_or:
  "alert_text_for (js_or e (JStr fallback)) =
     (if truthy e then alert_text_for e else fallback)"
  by (simp add: js_or_def alert_text_for_def)

text \<open>
  Claim C3, as amended. For a response of the translate, speech-to-text or
  text-to-speech endpoint whose \<^verbatim>\<open>success\<close> is \<^verbatim>\<open>false\<close>, the alert shows the default of
  the endpoint (\<^verbatim>\<open>Translation failed\<close>, \<^verbatim>\<open>STT failed\<close>, \<^verbatim>\<open>TTS failed\<close>) when the response's
  \<^verbatim>\<open>error\<close> is absent, empty or otherwise falsy, and the \<^verbatim>\<open>error\<close> converted to a string
  when it is truthy: a non-empty string verbatim, a number as it prints. When that
  conversion throws, the alert shows \<^verbatim>\<open>Network error\<close>.
\<close>

theorem error_displayed:
  assumes "get_prop j (lit ''success'') = Some (JBool False)"
    and "get_prop j (lit ''error'') = Some e"
  shows "(trim (srcText s) \<noteq> [] \<longrightarrow>
            alerts (translate (Body j) s) =
              alert_shown (if truthy e then alert_text_for e else lit ''Translation failed'')) \<and>
         (\<forall>f fs. audioInput s = Some (f # fs) \<longrightarrow>
            alerts (stt (Body j) s) =
              alert_shown (if truthy e then alert_text_for e else lit ''STT failed'')) \<and>
         (trim (str_or (ttsText s) (srcText s)) \<noteq> [] \<longrightarrow>
            alerts (tts (Body j) s) =
              alert_shown (if truthy e then alert_text_for e else lit ''TTS failed'')) \<and>
         (\<forall>m. e = JStr m \<longrightarrow> m \<noteq> [] \<longrightarrow> truthy e \<and> alert_text_for e = m) \<and>
         (\<forall>n. e = JNum n \<longrightarrow> alert_text_for e = n) \<and>
         (e = JUndefined \<or> e = JStr [] \<longrightarrow> \<not> truthy e) \<and>
         (ToString e = None \<longrightarrow> truthy e \<and> alert_text_for e = lit ''Network error'')"
proof -
  have f: "\<not> truthy (JBool False)"
    by simp
  have e: "field j (lit ''error'') = e"
    by (rule get_prop_field [OF assms(2)])
  have "trim (srcText s) \<noteq> [] \<Longrightarrow>
        alerts (translate (Body j) s) =
          alert_shown (if truthy e then alert_text_for e else lit ''Translation failed'')"
    using translate_not_ok [of s j "JBool False"] assms(1)
    by (simp add: Let_def alerts_failure alert_text_for_js_or e)
  moreover have "\<And>f fs. audioInput s = Some (f # fs) \<Longrightarrow>
        alerts (stt (Body j) s) = alert_shown (if truthy e then alert_text_for e else lit ''STT failed'')"
    using stt_not_ok [of s _ _ j "JBool False"] assms(1)
    by (simp add: Let_def alerts_failure alert_text_for_js_or e)
  moreover have "trim (str_or (ttsText s) (srcText s)) \<noteq> [] \<Longrightarrow>
        alerts (tts (Body j) s) = alert_shown (if truthy e then alert_text_for e else lit ''TTS failed'')"
    using tts_not_ok [of s j "JBool False"] assms(1)
    by (simp add: Let_def alerts_failure alert_text_for_js_or e)
  moreover have "ToString e = None \<Longrightarrow> truthy e \<and> alert_text_for e = lit ''Network error''"
    by (cases e) (auto simp: alert_text_for_def text_content_string_def split: if_splits)
  ultimately show ?thesis
    by (auto simp: alert_text_for_def text_content_string_def)
qed

text \<open>
  The claim as first stated gives the default for every \<^verbatim>\<open>error\<close> that is not a non-empty
  string. The number 42 is not a string, and the alert shows it, not the default; an
  error that does not convert leaves the alert \<^verbatim>\<open>Network error\<close>.
\<close>

theorem error_fallback_counterexample:
  "get_prop numeric_error_body (lit ''success'') = Some (JBool False) \<and>
   get_prop numeric_error_body (lit ''error'') = Some (JNum (lit ''42'')) \<and>
   alerts (translate (Body numeric_error_body) (page0\<lparr>srcText := lit ''hi''\<rparr>)) =
     alert_shown (lit ''42'') \<and>
   alert_shown (lit ''42'') \<noteq> alert_shown (lit ''Translation failed'') \<and>
   get_prop unprintable_error_body (lit ''success'') = Some (JBool False) \<and>
   alerts (translate (Body unprintable_error_body) (page0\<lparr>srcText := lit ''hi''\<rparr>)) =
     alert_shown (lit ''Network error'') \<and>
   alert_shown (lit ''Network error'') \<noteq> alert_shown (lit ''Translation failed'')"
  by (simp add: handler_defs example_defs unprintable_error_body_def)

theorem error_displayed_witness:
  "get_prop quota_error_body (lit ''success'') = Some (JBool False) \<and>
   get_prop quota_error_body (lit ''error'') = Some (JStr (lit ''quota exceeded'')) \<and>
   alerts (translate (Body quota_error_body) (page0\<lparr>srcText := lit ''hi''\<rparr>)) =
     alert_shown (lit ''quota exceeded'') \<and>
   alerts (stt (Body quota_error_body)
             (page0\<lparr>srcText := lit ''hi'', audioInput := Some [AudioFile (lit ''a.wav'')]\<rparr>)) =
     alert_shown (lit ''quota exceeded'') \<and>
   alerts (tts (Body quota_error_body) (page0\<lparr>srcText := lit ''hi''\<rparr>)) =
     alert_shown (lit ''quota exceeded'') \<and>
   get_prop unprintable_error_body (lit ''error'') = Some unprintable \<and>
   ToString unprintable = None \<and>
   alerts (tts (Body unprintable_error_body) (page0\<lparr>srcText := lit ''hi''\<rparr>)) =
     alert_shown (lit ''Network error'')"
proof -
  have a: "get_prop quota_error_body (lit ''success'') = Some (JBool False)"
    "get_prop unprintable_error_body (lit ''success'') = Some (JBool False)"
    by (simp_all add: quota_error_body_def unprintable_error_body_def lit_def)
  have b: "get_prop quota_error_body (lit ''error'') = Some (JStr (lit ''quota exceeded''))"
    "get_prop unprintable_error_body (lit ''error'') = Some unprintable"
    by (simp_all add: quota_error_body_def unprintable_error_body_def lit_def)
  have c: "trim (lit ''hi'') \<noteq> []"
    by (simp add: trim_def is_ws_def lit_def)
  have d: "lit ''quota exceeded'' \<noteq> []" "ToString unprintable = None"
    by (simp_all add: lit_def unprintable_def)
  show ?thesis
    using a b c d
      error_displayed [OF a(1) b(1), of "page0\<lparr>srcText := lit ''hi''\<rparr>"]
      error_displayed [OF a(1) b(1),
        of "page0\<lparr>srcText := lit ''hi'', audioInput := Some [AudioFile (lit ''a.wav'')]\<rparr>"]
      error_displayed [OF a(2) b(2), of "page0\<lparr>srcText := lit ''hi''\<rparr>"]
    by (simp add: page0_def str_or_def)
qed

subsection \<open>The health badge\<close>

lemma badge_alert_class: "lit ''badge'' @ lit '' alert'' = lit ''badge alert''"
  by (simp add: lit_def)

lemma checkHealth_healthy:
  "get_prop j (lit ''status'') = Some (JStr (lit ''healthy'')) \<Longrightarrow>
   checkHealth (Body j) s = setBadge badge_ok True (fetch GetHealth s)"
  by (simp add: checkHealth_def checkHealth_try_def reading_def)

lemma checkHealth_issue:
  "get_prop j (lit ''status'') = Some v \<Longrightarrow> v \<noteq> JStr (lit ''healthy'') \<Longrightarrow>
   checkHealth (Body j) s = setBadge (lit ''Server issue'') False (fetch GetHealth s)"
  by (simp add: checkHealth_def checkHealth_try_def reading_def)

lemma checkHealth_thrown:
  "r = Rejected \<or> r = NotJson \<or> (\<exists>j. r = Body j \<and> get_prop j (lit ''status'') = None) \<Longrightarrow>
   checkHealth r s = setBadge (lit ''Server unreachable'') False (fetch GetHealth s)"
  by (auto simp: checkHealth_def checkHealth_try_def reading_def)

lemma checkHealth_unhealthy:
  assumes "\<forall>j. r = Body j \<longrightarrow> get_prop j (lit ''status'') \<noteq> Some (JStr (lit ''healthy''))"
  shows "checkHealth r s = setBadge (lit ''Server issue'') False (fetch GetHealth s) \<or>
         checkHealth r s = setBadge (lit ''Server unreachable'') False (fetch GetHealth s)"
proof (cases r)
  case (Body j)
  show ?thesis
  proof (cases "get_prop j (lit ''status'')")
    case None
    with Body show ?thesis by (simp add: checkHealth_thrown)
  next
    case (Some v)
    with Body assms show ?thesis by (simp add: checkHealth_issue)
  qed
qed (simp_all add: checkHealth_thrown)

text \<open>
  Claim C5. After \<open>checkHealth\<close>, a response that parses to a value whose \<^verbatim>\<open>status\<close> is
  the string \<^verbatim>\<open>healthy\<close> leaves the badge with the text \<^verbatim>\<open>Server\<close> and a check mark and
  the class \<^verbatim>\<open>badge\<close>; every other outcome (another status, a rejected request, a body
  that does not parse) leaves it with the class \<^verbatim>\<open>badge alert\<close> and the text
  \<^verbatim>\<open>Server issue\<close> or \<^verbatim>\<open>Server unreachable\<close>.
\<close>

theorem health_badge:
  "(get_prop j (lit ''status'') = Some (JStr (lit ''healthy'')) \<longrightarrow>
      health_text (checkHealth (Body j) s) = badge_ok \<and>
      health_class (checkHealth (Body j) s) = lit ''badge'') \<and>
   ((\<forall>j'. r = Body j' \<longrightarrow> get_prop j' (lit ''status'') \<noteq> Some (JStr (lit ''healthy''))) \<longrightarrow>
      (health_text (checkHealth r s) = lit ''Server issue'' \<or>
       health_text (checkHealth r s) = lit ''Server unreachable'') \<and>
      health_class (checkHealth r s) = lit ''badge alert'')"
proof (intro conjI impI)
  assume "\<forall>j'. r = Body j' \<longrightarrow> get_prop j' (lit ''status'') \<noteq> Some (JStr (lit ''healthy''))"
  from checkHealth_unhealthy [OF this, of s]
  show "health_text (checkHealth r s) = lit ''Server issue'' \<or>
        health_text (checkHealth r s) = lit ''Server unreachable''"
    and "health_class (checkHealth r s) = lit ''badge alert''"
    by (auto simp: setBadge_def badge_alert_class)
qed (simp_all add: checkHealth_healthy setBadge_def)

theorem health_badge_witness:
  "get_prop healthy_body (lit ''status'') = Some (JStr (lit ''healthy'')) \<and>
   health_text (checkHealth (Body healthy_body) page0) = badge_ok \<and>
   health_class (checkHealth (Body healthy_body) page0) = lit ''badge'' \<and>
   health_text (checkHealth Rejected page0) = lit ''Server unreachable'' \<and>
   health_class (checkHealth Rejected page0) = lit ''badge alert'' \<and>
   health_text (checkHealth (Body (JObj [(lit ''status'', JStr (lit ''degraded''))])) page0) =
     lit ''Server issue'' \<and>
   health_class (checkHealth (Body (JObj [(lit ''status'', JStr (lit ''degraded''))])) page0) =
     lit ''badge alert''"
proof -
  have a: "get_prop healthy_body (lit ''status'') = Some (JStr (lit ''healthy''))"
    by (simp add: healthy_body_def)
  have b: "health_text (checkHealth Rejected page0) \<noteq> lit ''Server issue''"
    by (simp add: checkHealth_def checkHealth_try_def setBadge_def lit_def)
  have c: "health_text (checkHealth (Body (JObj [(lit ''status'', JStr (lit ''degraded''))])) page0)
           \<noteq> lit ''Server unreachable''"
    by (simp add: checkHealth_def checkHealth_try_def reading_def setBadge_def lit_def)
  have d: "get_prop (JObj [(lit ''status'', JStr (lit ''degraded''))]) (lit ''status'')
           \<noteq> Some (JStr (lit ''healthy''))"
    by (simp add: lit_def)
  show ?thesis
    using a b c d
      health_badge [of healthy_body page0 Rejected]
      health_badge [of healthy_body page0 "Body (JObj [(lit ''status'', JStr (lit ''degraded''))])"]
    by simp
qed

subsection \<open>Swapping\<close>

lemma status_bar_info: "lit ''status-bar '' @ lit ''info'' = lit ''status-bar info''"
  by (simp add: lit_def)

lemma swap_eq:
  "swap s =
     s\<lparr>srcText := outText s, outText := srcText s, status_text := msg_swapped,
       status_class := lit ''status-bar info'', status_display := lit ''block'',
       timers := timers s @ [(2000, HideStatus)]\<rparr>"
  by (simp add: swap_def showStatus_def status_bar_info)

text \<open>
  Claim C9, as amended. \<open>swap\<close> exchanges the source text and the translated text, and
  a second \<open>swap\<close> restores both. Of the rest of the page only the status bar changes:
  it shows the message of line 159 with the class \<^verbatim>\<open>status-bar info\<close>, and a timer
  of 2000 ms is set to hide it. The other text fields, the selectors, the alerts and
  the effects stay as they were.
\<close>

theorem swap_exchanges:
  "swap s =
     s\<lparr>srcText := outText s, outText := srcText s, status_text := msg_swapped,
       status_class := lit ''status-bar info'', status_display := lit ''block'',
       timers := timers s @ [(2000, HideStatus)]\<rparr> \<and>
   srcText (swap (swap s)) = srcText s \<and> outText (swap (swap s)) = outText s"
  by (simp add: swap_eq)

text \<open>
  The claim as first stated leaves every other text of the page unchanged. The text of
  the status bar is empty before the swap and is the message after it.
\<close>

theorem swap_status_counterexample:
  "status_text page0 = [] \<and> status_text (swap page0) = msg_swapped \<and>
   status_text (swap page0) \<noteq> status_text page0"
  by (simp add: swap_eq page0_def msg_swapped_def)

subsection \<open>Audio without a URL\<close>

text \<open>
  Claim C10, as amended. When a text-to-speech request is made and its response does
  not have both a truthy \<^verbatim>\<open>success\<close> and a truthy \<^verbatim>\<open>audio_url\<close> (so with
  \<^verbatim>\<open>success: true\<close> and the URL absent or empty), the source and the display of the audio
  element stay as they were, nothing is played (the only effect is the request), and
  the alert shows the response's \<^verbatim>\<open>error\<close> converted to a string when it is truthy,
  \<^verbatim>\<open>TTS failed\<close> when it is falsy, and \<^verbatim>\<open>Network error\<close> when its conversion throws. A
  rejected request and a body that does not parse leave the audio element alone as
  well. With both truthy the source is set to the URL and the audio is played, unless
  the conversion of the URL throws: then the audio element is left alone, nothing is
  played and the alert shows \<^verbatim>\<open>Network error\<close>.
\<close>

theorem tts_needs_audio_url:
  assumes "trim (str_or (ttsText s) (srcText s)) \<noteq> []"
  shows "(get_prop j (lit ''success'') = Some ok \<longrightarrow>
            \<not> (truthy ok \<and> truthy (field j (lit ''audio_url''))) \<longrightarrow>
            ttsAudio_src (tts (Body j) s) = ttsAudio_src s \<and>
            ttsAudio_display (tts (Body j) s) = ttsAudio_display s \<and>
            effects (tts (Body j) s) =
              effects s @ [Fetch (PostTTS (trim (str_or (ttsText s) (srcText s)))
                                    (str_or (sel_value (tgtLang s)) (lit ''en'')))] \<and>
            alerts (tts (Body j) s) =
              alert_shown (if truthy (field j (lit ''error''))
                           then alert_text_for (field j (lit ''error'')) else lit ''TTS failed'')) \<and>
         (r = Rejected \<or> r = NotJson \<or> r = Body JNull \<longrightarrow>
            ttsAudio_src (tts r s) = ttsAudio_src s \<and>
            ttsAudio_display (tts r s) = ttsAudio_display s \<and>
            effects (tts r s) =
              effects s @ [Fetch (PostTTS (trim (str_or (ttsText s) (srcText s)))
                                    (str_or (sel_value (tgtLang s)) (lit ''en'')))]) \<and>
         (get_prop j (lit ''success'') = Some ok \<longrightarrow>
            truthy ok \<and> truthy (field j (lit ''audio_url'')) \<longrightarrow>
            (\<forall>url. ToString (field j (lit ''audio_url'')) = Some url \<longrightarrow>
               ttsAudio_src (tts (Body j) s) = usv_string url \<and>
               effects (tts (Body j) s) =
                 effects s @ [Fetch (PostTTS (trim (str_or (ttsText s) (srcText s)))
                                       (str_or (sel_value (tgtLang s)) (lit ''en''))), PlayAudio]) \<and>
            (ToString (field j (lit ''audio_url'')) = None \<longrightarrow>
               ttsAudio_src (tts (Body j) s) = ttsAudio_src s \<and>
               ttsAudio_display (tts (Body j) s) = ttsAudio_display s \<and>
               effects (tts (Body j) s) =
                 effects s @ [Fetch (PostTTS (trim (str_or (ttsText s) (srcText s)))
                                       (str_or (sel_value (tgtLang s)) (lit ''en'')))] \<and>
               alerts (tts (Body j) s) = alert_shown (lit ''Network error'')))"
proof (intro conjI impI allI)
  assume a: "get_prop j (lit ''success'') = Some ok"
    and b: "\<not> (truthy ok \<and> truthy (field j (lit ''audio_url'')))"
  note eq = tts_not_ok [OF assms a b]
  show "ttsAudio_src (tts (Body j) s) = ttsAudio_src s"
    by (simp add: eq Let_def network_error_eq showStatus_def fetch_def split: option.splits)
  show "ttsAudio_display (tts (Body j) s) = ttsAudio_display s"
    by (simp add: eq Let_def network_error_eq showStatus_def fetch_def split: option.splits)
  show "effects (tts (Body j) s) =
        effects s @ [Fetch (PostTTS (trim (str_or (ttsText s) (srcText s)))
                              (str_or (sel_value (tgtLang s)) (lit ''en'')))]"
    by (simp add: eq Let_def split: option.splits)
  show "alerts (tts (Body j) s) =
        alert_shown (if truthy (field j (lit ''error''))
                     then alert_text_for (field j (lit ''error'')) else lit ''TTS failed'')"
    by (simp add: eq Let_def alerts_failure alert_text_for_js_or)
next
  assume "r = Rejected \<or> r = NotJson \<or> r = Body JNull"
  then have "r = Rejected \<or> r = NotJson \<or> (\<exists>j. r = Body j \<and> get_prop j (lit ''success'') = None)"
    by auto
  note eq = tts_thrown [OF assms this]
  show "ttsAudio_src (tts r s) = ttsAudio_src s"
    by (simp add: eq network_error_eq showStatus_def fetch_def)
  show "ttsAudio_display (tts r s) = ttsAudio_display s"
    by (simp add: eq network_error_eq showStatus_def fetch_def)
  show "effects (tts r s) =
        effects s @ [Fetch (PostTTS (trim (str_or (ttsText s) (srcText s)))
                              (str_or (sel_value (tgtLang s)) (lit ''en'')))]"
    by (simp add: eq)
next
  fix url
  assume a: "get_prop j (lit ''success'') = Some ok"
    and b: "truthy ok \<and> truthy (field j (lit ''audio_url''))"
    and c: "ToString (field j (lit ''audio_url'')) = Some url"
  note eq = tts_ok [OF assms a conjunct1 [OF b] conjunct2 [OF b]]
  show "ttsAudio_src (tts (Body j) s) = usv_string url"
    by (simp add: eq c Let_def showStatus_def)
  show "effects (tts (Body j) s) =
        effects s @ [Fetch (PostTTS (trim (str_or (ttsText s) (srcText s)))
                              (str_or (sel_value (tgtLang s)) (lit ''en''))), PlayAudio]"
    by (simp add: eq c Let_def)
next
  assume a: "get_prop j (lit ''success'') = Some ok"
    and b: "truthy ok \<and> truthy (field j (lit ''audio_url''))"
    and c: "ToString (field j (lit ''audio_url'')) = None"
  note eq = tts_ok [OF assms a conjunct1 [OF b] conjunct2 [OF b]]
  show "ttsAudio_src (tts (Body j) s) = ttsAudio_src s"
    by (simp add: eq c Let_def network_error_eq showStatus_def fetch_def)
  show "ttsAudio_display (tts (Body j) s) = ttsAudio_display s"
    by (simp add: eq c Let_def network_error_eq showStatus_def fetch_def)
  show "effects (tts (Body j) s) =
        effects s @ [Fetch (PostTTS (trim (str_or (ttsText s) (srcText s)))
                              (str_or (sel_value (tgtLang s)) (lit ''en'')))]"
    by (simp add: eq c Let_def)
  show "alerts (tts (Body j) s) = alert_shown (lit ''Network error'')"
    by (simp add: eq c Let_def)
qed

text \<open>
  The claim as first stated has the alert show the response's error string or
  \<^verbatim>\<open>TTS failed\<close>. With an error that does not convert to a string the alert shows
  \<^verbatim>\<open>Network error\<close>.
\<close>

theorem tts_alert_counterexample:
  "get_prop no_url_unprintable_body (lit ''success'') = Some (JBool True) \<and>
   get_prop no_url_unprintable_body (lit ''audio_url'') = Some JUndefined \<and>
   alerts (tts (Body no_url_unprintable_body) (page0\<lparr>ttsText := lit ''hi''\<rparr>)) =
     alert_shown (lit ''Network error'') \<and>
   alert_shown (lit ''Network error'') \<noteq> alert_shown (lit ''TTS failed'') \<and>
   ToString (field no_url_unprintable_body (lit ''error'')) = None"
  by (simp add: handler_defs example_defs no_url_unprintable_body_def)

theorem tts_needs_audio_url_witness:
  "trim (str_or (ttsText (page0\<lparr>ttsText := lit ''hi''\<rparr>)) (srcText (page0\<lparr>ttsText := lit ''hi''\<rparr>))) \<noteq> [] \<and>
   get_prop no_url_body (lit ''success'') = Some (JBool True) \<and>
   field no_url_body (lit ''audio_url'') = JUndefined \<and>
   ttsAudio_src (tts (Body no_url_body) (page0\<lparr>ttsText := lit ''hi''\<rparr>)) = [] \<and>
   effects (tts (Body no_url_body) (page0\<lparr>ttsText := lit ''hi''\<rparr>)) =
     [Fetch (PostTTS (lit ''hi'') (lit ''en''))] \<and>
   alerts (tts (Body no_url_body) (page0\<lparr>ttsText := lit ''hi''\<rparr>)) = alert_shown (lit ''TTS failed'') \<and>
   ttsAudio_src (tts Rejected (page0\<lparr>ttsText := lit ''hi''\<rparr>)) = [] \<and>
   get_prop audio_body (lit ''success'') = Some (JBool True) \<and>
   ttsAudio_src (tts (Body audio_body) (page0\<lparr>ttsText := lit ''hi''\<rparr>)) = lit ''/a.mp3'' \<and>
   effects (tts (Body audio_body) (page0\<lparr>ttsText := lit ''hi''\<rparr>)) =
     [Fetch (PostTTS (lit ''hi'') (lit ''en'')), PlayAudio] \<and>
   get_prop unprintable_url_body (lit ''success'') = Some (JBool True) \<and>
   ToString (field unprintable_url_body (lit ''audio_url'')) = None \<and>
   effects (tts (Body unprintable_url_body) (page0\<lparr>ttsText := lit ''hi''\<rparr>)) =
     [Fetch (PostTTS (lit ''hi'') (lit ''en''))] \<and>
   alerts (tts (Body unprintable_url_body) (page0\<lparr>ttsText := lit ''hi''\<rparr>)) =
     alert_shown (lit ''Network error'')"
proof -
  let ?p = "page0\<lparr>ttsText := lit ''hi''\<rparr>"
  have a: "trim (str_or (ttsText ?p) (srcText ?p)) \<noteq> []"
    by (simp add: trim_def is_ws_def lit_def str_or_def)
  have a': "trim (str_or (ttsText ?p) (srcText ?p)) = lit ''hi''"
    by (simp add: trim_def is_ws_def lit_def str_or_def)
  have b: "get_prop no_url_body (lit ''success'') = Some (JBool True)"
    by (simp add: no_url_body_def lit_def)
  have c: "field no_url_body (lit ''audio_url'') = JUndefined"
    by (simp add: no_url_body_def field_def lit_def)
  have d: "field no_url_body (lit ''error'') = JUndefined"
    by (simp add: no_url_body_def field_def lit_def)
  have e: "get_prop audio_body (lit ''success'') = Some (JBool True)"
    "get_prop unprintable_url_body (lit ''success'') = Some (JBool True)"
    by (simp_all add: audio_body_def unprintable_url_body_def lit_def)
  have f: "field audio_body (lit ''audio_url'') = JStr (lit ''/a.mp3'')"
    "field unprintable_url_body (lit ''audio_url'') = unprintable"
    by (simp_all add: audio_body_def unprintable_url_body_def field_def lit_def)
  have g: "lit ''/a.mp3'' \<noteq> []" "lit ''hi'' \<noteq> []" "usv_string (lit ''/a.mp3'') = lit ''/a.mp3''"
    "ToString unprintable = None" "truthy unprintable"
    by (simp_all add: lit_def is_high_surrogate_def is_low_surrogate_def unprintable_def)
  have h: "str_or (sel_value (tgtLang ?p)) (lit ''en'') = lit ''en''"
    by (simp add: page0_def sel_value_def str_or_def)
  have i: "ttsAudio_src ?p = []" "effects ?p = []"
    by (simp_all add: page0_def)
  show ?thesis
    using b c d e f g
      tts_needs_audio_url [OF a, of no_url_body "JBool True" Rejected]
      tts_needs_audio_url [OF a, of audio_body "JBool True" Rejected]
      tts_needs_audio_url [OF a, of unprintable_url_body "JBool True" Rejected]
    unfolding a' h i
    by simp
qed

subsection \<open>Filling the target selector\<close>

lemma select_first_enabled_shape [simp]:
  "map opt_value (select_first_enabled xs) = map opt_value xs"
  "map opt_text (select_first_enabled xs) = map opt_text xs"
  by (induction xs) auto

lemma keep_last_selected_shape [simp]:
  "map opt_value (keep_last_selected xs) = map opt_value xs"
  "map opt_text (keep_last_selected xs) = map opt_text xs"
  by (induction xs) auto

lemma appendChild_options:
  "sel_options (appendChild x sel) =
     (let xs = sel_options sel @ [x] in
      if sel_multiple sel then xs
      else if sel_size sel = 1 \<and> filter opt_selected xs = [] then select_first_enabled xs
      else if 2 \<le> length (filter opt_selected xs) then keep_last_selected xs
      else xs)"
  by (simp add: appendChild_def selectedness_setting_def Let_def)

lemma appendChild_kind [simp]:
  "sel_multiple (appendChild x sel) = sel_multiple sel"
  "sel_size (appendChild x sel) = sel_size sel"
  by (simp_all add: appendChild_def selectedness_setting_def)

lemma appendChild_shape:
  "map opt_value (sel_options (appendChild x sel)) = map opt_value (sel_options sel) @ [opt_value x]"
  "map opt_text (sel_options (appendChild x sel)) = map opt_text (sel_options sel) @ [opt_text x]"
  by (simp_all add: appendChild_options Let_def)

lemma appendChild_keep_last:
  assumes "\<not> sel_multiple sel"
    and "2 \<le> length (filter opt_selected (sel_options sel @ [x]))"
  shows "sel_options (appendChild x sel) = keep_last_selected (sel_options sel @ [x])"
proof -
  define ys where "ys = sel_options sel @ [x]"
  from assms(2) have two: "2 \<le> length (filter opt_selected ys)"
    by (simp only: ys_def)
  then have "length (filter opt_selected ys) \<noteq> 0"
    by linarith
  then have ne: "filter opt_selected ys \<noteq> []"
    by simp
  have "sel_options (appendChild x sel) =
      (if sel_multiple sel then ys
       else if sel_size sel = 1 \<and> filter opt_selected ys = [] then select_first_enabled ys
       else if 2 \<le> length (filter opt_selected ys) then keep_last_selected ys
       else ys)"
    by (simp only: appendChild_options Let_def ys_def)
  with assms(1) two ne show ?thesis
    by (simp add: ys_def [symmetric])
qed

lemma appendChild_one_selected:
  assumes "length (filter opt_selected (sel_options sel @ [x])) = 1"
  shows "sel_options (appendChild x sel) = sel_options sel @ [x]"
proof -
  define ys where "ys = sel_options sel @ [x]"
  from assms have one: "length (filter opt_selected ys) = 1"
    by (simp only: ys_def)
  then have "length (filter opt_selected ys) \<noteq> 0"
    by linarith
  then have ne: "filter opt_selected ys \<noteq> []"
    by simp
  have "sel_options (appendChild x sel) =
      (if sel_multiple sel then ys
       else if sel_size sel = 1 \<and> filter opt_selected ys = [] then select_first_enabled ys
       else if 2 \<le> length (filter opt_selected ys) then keep_last_selected ys
       else ys)"
    by (simp only: appendChild_options Let_def ys_def)
  with one ne show ?thesis
    by (simp add: ys_def [symmetric])
qed

lemma pair_maps:
  "map f xs = map f' es \<Longrightarrow> map g xs = map g' es \<Longrightarrow>
   map (\<lambda>x. (f x, g x)) xs = map (\<lambda>e. (f' e, g' e)) es"
  by (induction xs arbitrary: es) auto

lemma add_language_cases:
  "add_language s e =
     (if name_converts e then Ran (s\<lparr>tgtLang := appendChild (language_option e) (tgtLang s)\<rparr>)
      else Threw s)"
  by (cases e) (auto simp: add_language_def language_option_def name_converts_def)

text \<open>
  The loop appends the options of the entries up to the first name that does not
  convert, and throws there.
\<close>

lemma forEach_language_eq:
  "forEach_language s es =
     (if list_all name_converts es then Ran else Threw)
       (s\<lparr>tgtLang := foldl (\<lambda>sel e. appendChild (language_option e) sel) (tgtLang s)
                       (takeWhile name_converts es)\<rparr>)"
  by (induction es arbitrary: s) (simp_all add: add_language_cases)

lemma add_all_kind [simp]:
  "sel_multiple (foldl (\<lambda>sel e. appendChild (language_option e) sel) sel es) = sel_multiple sel"
  "sel_size (foldl (\<lambda>sel e. appendChild (language_option e) sel) sel es) = sel_size sel"
  by (induction es arbitrary: sel) simp_all

lemma add_all_shape:
  "map opt_value (sel_options (foldl (\<lambda>sel e. appendChild (language_option e) sel) sel es)) =
     map opt_value (sel_options sel) @ map fst es"
  "map opt_text (sel_options (foldl (\<lambda>sel e. appendChild (language_option e) sel) sel es)) =
     map opt_text (sel_options sel) @ map (\<lambda>e. opt_text (language_option e)) es"
  by (induction es arbitrary: sel) (simp_all add: appendChild_shape language_option_def)

lemma keep_last_selected_snoc:
  "opt_selected x \<Longrightarrow> keep_last_selected (xs @ [x]) = map deselect xs @ [x]"
  by (induction xs) (simp_all add: deselect_def)

lemma deselect_select_first_enabled:
  "map deselect (select_first_enabled xs) = map deselect xs"
  by (induction xs) (simp_all add: deselect_def)

lemma selected_language_option [simp]:
  "opt_selected (language_option e) \<longleftrightarrow> fst e = lit ''en''"
  by (simp add: language_option_def)

lemma no_en_unselected:
  "lit ''en'' \<notin> fst ` set es \<Longrightarrow> filter opt_selected (map language_option es) = []"
  by (induction es) auto

lemma no_en_deselect:
  "lit ''en'' \<notin> fst ` set es \<Longrightarrow> map deselect (map language_option es) = map language_option es"
  by (induction es) (auto simp: deselect_def language_option_def)

lemma one_en_selected:
  "distinct (map fst es) \<Longrightarrow> lit ''en'' \<in> fst ` set es \<Longrightarrow>
   length (filter opt_selected (map language_option es)) = 1"
proof (induction es)
  case Nil
  then show ?case by simp
next
  case (Cons e es)
  show ?case
  proof (cases "fst e = lit ''en''")
    case True
    with Cons.prems have "lit ''en'' \<notin> fst ` set es"
      by auto
    with True show ?thesis
      by (simp add: no_en_unselected)
  next
    case False
    with Cons show ?thesis
      by auto
  qed
qed

lemma select_first_enabled_languages:
  "select_first_enabled (map language_option (e # es)) =
     (language_option e)\<lparr>opt_selected := True\<rparr> # map language_option es"
  by (simp add: language_option_def)

text \<open>
  Without the code \<^verbatim>\<open>en\<close> in the map no option is built selected; a drop-down then
  selects its first option itself.
\<close>

lemma add_all_no_en:
  assumes "lit ''en'' \<notin> fst ` set es" and "sel_options sel = []"
  shows "sel_options (foldl (\<lambda>sel e. appendChild (language_option e) sel) sel es) =
     (if \<not> sel_multiple sel \<and> sel_size sel = 1
      then select_first_enabled (map language_option es) else map language_option es)"
  using assms(1)
proof (induction es rule: rev_induct)
  case Nil
  show ?case by (simp add: assms(2))
next
  case (snoc e es)
  let ?sel = "foldl (\<lambda>sel e. appendChild (language_option e) sel) sel es"
  from snoc.prems have no: "lit ''en'' \<notin> fst ` set es" and e: "fst e \<noteq> lit ''en''"
    by auto
  note IH = snoc.IH [OF no]
  show ?case
  proof (cases "\<not> sel_multiple sel \<and> sel_size sel = 1")
    case False
    with IH e no show ?thesis
      by (auto simp: appendChild_options Let_def no_en_unselected)
  next
    case True
    show ?thesis
    proof (cases es)
      case Nil
      with True IH e show ?thesis
        by (simp add: appendChild_options Let_def)
    next
      case (Cons e' es')
      with True IH have opts: "sel_options ?sel =
          (language_option e')\<lparr>opt_selected := True\<rparr> # map language_option es'"
        by (simp add: language_option_def)
      from no Cons have "filter opt_selected (map language_option es') = []"
        by (simp add: no_en_unselected)
      with True e opts Cons show ?thesis
        by (simp add: appendChild_options Let_def language_option_def)
    qed
  qed
qed

text \<open>With the code \<^verbatim>\<open>en\<close> in the map, its option is the selected one in every kind of selector.\<close>

lemma add_all_en:
  assumes "distinct (map fst es)" and "lit ''en'' \<in> fst ` set es" and "sel_options sel = []"
  shows "sel_options (foldl (\<lambda>sel e. appendChild (language_option e) sel) sel es) =
         map language_option es"
  using assms(1,2)
proof (induction es rule: rev_induct)
  case Nil
  then show ?case by simp
next
  case (snoc e es)
  let ?sel = "foldl (\<lambda>sel e. appendChild (language_option e) sel) sel es"
  from snoc.prems have d: "distinct (map fst es)" and fresh: "fst e \<notin> fst ` set es"
    by auto
  show ?case
  proof (cases "fst e = lit ''en''")
    case True
    with fresh have no: "lit ''en'' \<notin> fst ` set es"
      by simp
    note opts = add_all_no_en [OF no assms(3)]
    from True have sel: "opt_selected (language_option e)"
      by simp
    show ?thesis
    proof (cases "\<not> sel_multiple sel \<and> sel_size sel = 1")
      case False
      with opts sel no show ?thesis
        by (auto simp: appendChild_options Let_def no_en_unselected)
    next
      case dd: True
      show ?thesis
      proof (cases es)
        case Nil
        with dd opts sel show ?thesis
          by (simp add: appendChild_options Let_def)
      next
        case (Cons e' es')
        with dd opts have o: "sel_options ?sel = select_first_enabled (map language_option es)"
          by simp
        have "2 \<le> length (filter opt_selected
                 (select_first_enabled (map language_option es) @ [language_option e]))"
          using sel Cons by (simp add: language_option_def)
        then have two: "2 \<le> length (filter opt_selected (sel_options ?sel @ [language_option e]))"
          by (simp only: o)
        have "sel_options (appendChild (language_option e) ?sel) =
              keep_last_selected (select_first_enabled (map language_option es) @ [language_option e])"
          using dd appendChild_keep_last [OF _ two] by (simp add: o)
        also have "\<dots> = map language_option es @ [language_option e]"
          by (simp only: keep_last_selected_snoc [OF sel] deselect_select_first_enabled
              no_en_deselect [OF no])
        finally show ?thesis
          by simp
      qed
    qed
  next
    case False
    with snoc.prems have en: "lit ''en'' \<in> fst ` set es"
      by auto
    note opts = snoc.IH [OF d en]
    from False have "filter opt_selected [language_option e] = []"
      by simp
    then have "filter opt_selected (map language_option es @ [language_option e]) =
               filter opt_selected (map language_option es)"
      by (simp only: filter_append append_Nil2)
    then have "length (filter opt_selected (sel_options ?sel @ [language_option e])) = 1"
      by (simp only: opts one_en_selected [OF d en])
    then have "sel_options (appendChild (language_option e) ?sel) =
               sel_options ?sel @ [language_option e]"
      by (rule appendChild_one_selected)
    with opts show ?thesis
      by simp
  qed
qed

lemma sel_value_en:
  assumes "lit ''en'' \<in> fst ` set es"
  shows "(case filter opt_selected (map language_option es) of [] \<Rightarrow> [] | x # xs \<Rightarrow> opt_value x)
         = lit ''en''"
  using assms by (induction es) (auto simp: language_option_def)

lemma takeWhile_all: "list_all P xs \<Longrightarrow> takeWhile P xs = xs"
  by (induction xs) auto

lemma loadLanguages_ok:
  assumes "get_prop j (lit ''languages'') = Some languages" and "entries languages = Some es"
  shows "loadLanguages (Body j) s =
     (let s2 = s\<lparr>tgtLang := foldl (\<lambda>sel e. appendChild (language_option e) sel)
                              ((tgtLang s)\<lparr>sel_options := []\<rparr>) (takeWhile name_converts es),
                  effects := effects s @ [Fetch GetLanguages]\<rparr>
      in if list_all name_converts es
         then (case ToString (field j (lit ''total'')) of
                 None \<Rightarrow> s2\<lparr>alerts := alert_shown (lit ''Failed to load languages'')\<rparr>
               | Some n \<Rightarrow> s2\<lparr>langInfo := lit ''Loaded '' @ n @ lit '' languages.''\<rparr>)
         else s2\<lparr>alerts := alert_shown (lit ''Failed to load languages'')\<rparr>)"
  using assms(2)
  by (simp add: loadLanguages_def loadLanguages_try_def reading_defined [OF assms(1)]
      get_prop_field [OF assms(1)] Let_def forEach_language_eq fetch_def alert_shown_def
      split: option.splits)

lemma loadLanguages_thrown:
  assumes "r = Rejected \<or> r = NotJson"
  shows "loadLanguages r s =
     (fetch GetLanguages s)\<lparr>alerts := alert_shown (lit ''Failed to load languages'')\<rparr>"
  using assms by (auto simp: loadLanguages_def loadLanguages_try_def alert_shown_def)

lemma loadLanguages_no_map:
  assumes "get_prop j (lit ''languages'') = None \<or>
           (\<exists>v. get_prop j (lit ''languages'') = Some v \<and> entries v = None)"
  shows "loadLanguages (Body j) s =
     (fetch GetLanguages s)
       \<lparr>tgtLang := (tgtLang s)\<lparr>sel_options := []\<rparr>,
        alerts := alert_shown (lit ''Failed to load languages'')\<rparr>"
  using assms
  by (auto simp: loadLanguages_def loadLanguages_try_def reading_def Let_def fetch_def
      alert_shown_def)

text \<open>
  Claim C4, as amended. When the languages response parses, has a language map and
  every name of the map converts to a string, the selector holds after \<open>loadLanguages\<close>
  exactly one option per entry of the map, in the order of the entries, with the code
  as its value and the name as its text (a name that is a string as it is); the options
  it held before are gone. When the map has the code \<^verbatim>\<open>en\<close>, its option is the only one
  selected and the value of the selector is \<^verbatim>\<open>en\<close>, whatever kind of selector the page
  has. When the conversion of a name throws, the same holds of the entries before that
  name, the later entries get no option, and the alert shows
  \<^verbatim>\<open>Failed to load languages\<close>. For the map of the specification, \<^verbatim>\<open>en\<close> and \<^verbatim>\<open>fr\<close>,
  see the instance below.
\<close>

theorem languages_fill_selector:
  assumes "get_prop j (lit ''languages'') = Some languages" and "entries languages = Some es"
  shows "(list_all name_converts es \<longrightarrow>
            map (\<lambda>x. (opt_value x, opt_text x)) (sel_options (tgtLang (loadLanguages (Body j) s))) =
              map (\<lambda>e. (fst e, opt_text (language_option e))) es \<and>
            (distinct (map fst es) \<and> lit ''en'' \<in> fst ` set es \<longrightarrow>
               sel_options (tgtLang (loadLanguages (Body j) s)) = map language_option es \<and>
               sel_value (tgtLang (loadLanguages (Body j) s)) = lit ''en'')) \<and>
         (\<not> list_all name_converts es \<longrightarrow>
            map (\<lambda>x. (opt_value x, opt_text x)) (sel_options (tgtLang (loadLanguages (Body j) s))) =
              map (\<lambda>e. (fst e, opt_text (language_option e))) (takeWhile name_converts es) \<and>
            (distinct (map fst (takeWhile name_converts es)) \<and>
             lit ''en'' \<in> fst ` set (takeWhile name_converts es) \<longrightarrow>
               sel_options (tgtLang (loadLanguages (Body j) s)) =
                 map language_option (takeWhile name_converts es) \<and>
               sel_value (tgtLang (loadLanguages (Body j) s)) = lit ''en'') \<and>
            alerts (loadLanguages (Body j) s) = alert_shown (lit ''Failed to load languages'')) \<and>
         (\<forall>code name. opt_text (language_option (code, JStr name)) = name)"
proof -
  define pre where "pre = takeWhile name_converts es"
  let ?sel = "foldl (\<lambda>sel e. appendChild (language_option e) sel) ((tgtLang s)\<lparr>sel_options := []\<rparr>) pre"
  have t: "tgtLang (loadLanguages (Body j) s) = ?sel"
    by (simp add: loadLanguages_ok [OF assms] Let_def pre_def split: option.splits)
  have "map opt_value (sel_options ?sel) = map fst pre"
    and "map opt_text (sel_options ?sel) = map (\<lambda>e. opt_text (language_option e)) pre"
    by (simp_all add: add_all_shape)
  then have shape: "map (\<lambda>x. (opt_value x, opt_text x)) (sel_options ?sel) =
             map (\<lambda>e. (fst e, opt_text (language_option e))) pre"
    by (rule pair_maps)
  have en: "sel_options ?sel = map language_option pre \<and> sel_value ?sel = lit ''en''"
    if "distinct (map fst pre) \<and> lit ''en'' \<in> fst ` set pre"
  proof -
    from that have o: "sel_options ?sel = map language_option pre"
      by (simp add: add_all_en)
    with that show ?thesis
      by (simp add: sel_value_def sel_value_en)
  qed
  have all: "pre = es" if "list_all name_converts es"
    using that by (simp add: pre_def takeWhile_all)
  have failed: "alerts (loadLanguages (Body j) s) = alert_shown (lit ''Failed to load languages'')"
    if "\<not> list_all name_converts es"
    using that by (simp add: loadLanguages_ok [OF assms] Let_def)
  have label: "opt_text (language_option (code, JStr name)) = name" for code name
    by (simp add: language_option_def)
  from shape en all failed label show ?thesis
    unfolding t pre_def [symmetric] by auto
qed

theorem languages_fill_selector_witness:
  "get_prop languages_body (lit ''languages'') = Some (JObj en_fr) \<and>
   entries (JObj en_fr) = Some en_fr \<and> list_all name_converts en_fr \<and>
   distinct (map fst en_fr) \<and> lit ''en'' \<in> fst ` set en_fr \<and>
   sel_options (tgtLang (loadLanguages (Body languages_body) stale_page)) =
     [\<lparr>opt_value = lit ''en'', opt_text = lit ''English'', opt_selected = True,
       opt_disabled = False\<rparr>,
      \<lparr>opt_value = lit ''fr'', opt_text = lit ''French'', opt_selected = False,
       opt_disabled = False\<rparr>] \<and>
   sel_value (tgtLang (loadLanguages (Body languages_body) stale_page)) = lit ''en'' \<and>
   get_prop unprintable_name_body (lit ''languages'') = Some (JObj en_xx_fr) \<and>
   \<not> list_all name_converts en_xx_fr \<and>
   map (\<lambda>x. (opt_value x, opt_text x))
     (sel_options (tgtLang (loadLanguages (Body unprintable_name_body) stale_page))) =
     [(lit ''en'', lit ''English'')] \<and>
   alerts (loadLanguages (Body unprintable_name_body) stale_page) =
     alert_shown (lit ''Failed to load languages'')"
proof -
  have a: "get_prop languages_body (lit ''languages'') = Some (JObj en_fr)"
    "get_prop unprintable_name_body (lit ''languages'') = Some (JObj en_xx_fr)"
    by (simp_all add: languages_body_def unprintable_name_body_def)
  have b: "entries (JObj en_fr) = Some en_fr" "entries (JObj en_xx_fr) = Some en_xx_fr"
    by simp_all
  have c: "distinct (map fst en_fr)" "lit ''en'' \<in> fst ` set en_fr" "list_all name_converts en_fr"
    "\<not> list_all name_converts en_xx_fr"
    by (simp_all add: en_fr_def en_xx_fr_def name_converts_def unprintable_def
        text_content_string_def lit_def)
  have d: "map language_option en_fr =
     [\<lparr>opt_value = lit ''en'', opt_text = lit ''English'', opt_selected = True,
       opt_disabled = False\<rparr>,
      \<lparr>opt_value = lit ''fr'', opt_text = lit ''French'', opt_selected = False,
       opt_disabled = False\<rparr>]"
    by (simp add: en_fr_def language_option_def lit_def)
  have e: "map (\<lambda>e. (fst e, opt_text (language_option e))) (takeWhile name_converts en_xx_fr) =
     [(lit ''en'', lit ''English'')]"
    by (simp add: en_xx_fr_def language_option_def name_converts_def unprintable_def
        text_content_string_def lit_def)
  show ?thesis
    using a b c
      languages_fill_selector [OF a(1) b(1), of stale_page]
      languages_fill_selector [OF a(2) b(2), of stale_page]
    by (simp add: d e)
qed

text \<open>
  The claim as first stated gives every entry of a parsed map its option. With a name
  that does not convert between \<^verbatim>\<open>en\<close> and \<^verbatim>\<open>fr\<close>, the selector holds the option of
  \<^verbatim>\<open>en\<close> alone and the alert shows \<^verbatim>\<open>Failed to load languages\<close>.
\<close>

theorem languages_counterexample:
  "get_prop unprintable_name_body (lit ''languages'') = Some (JObj en_xx_fr) \<and>
   entries (JObj en_xx_fr) = Some en_xx_fr \<and> length en_xx_fr = 3 \<and>
   sel_options (tgtLang (loadLanguages (Body unprintable_name_body) page0)) =
     [\<lparr>opt_value = lit ''en'', opt_text = lit ''English'', opt_selected = True,
       opt_disabled = False\<rparr>] \<and>
   alerts (loadLanguages (Body unprintable_name_body) page0) =
     alert_shown (lit ''Failed to load languages'')"
  by (simp add: handler_defs example_defs en_xx_fr_def unprintable_name_body_def)

subsection \<open>The requests a handler issues\<close>

lemma requests_same: "effects s' = effects s \<Longrightarrow> requests s' = requests s"
  by (simp add: requests_def)

lemma effects_loadLanguages: "effects (loadLanguages r s) = effects s @ [Fetch GetLanguages]"
proof (cases r)
  case (Body j)
  show ?thesis
  proof (cases "get_prop j (lit ''languages'')")
    case None
    with Body show ?thesis
      by (simp add: loadLanguages_no_map)
  next
    case (Some v)
    show ?thesis
    proof (cases "entries v")
      case None
      with Some Body show ?thesis
        by (simp add: loadLanguages_no_map)
    next
      case (Some es)
      with \<open>get_prop j (lit ''languages'') = Some v\<close> Body show ?thesis
        by (simp add: loadLanguages_ok Let_def split: option.splits)
    qed
  qed
qed (simp_all add: loadLanguages_thrown)

lemma requests_translate:
  "requests (translate r s) =
     (if trim (srcText s) = [] then requests s
      else requests s @ [PostTranslate (trim (srcText s)) (str_or (srcLang s) (lit ''auto''))
                           (sel_value (tgtLang s))])"
  by (simp add: requests_def effects_translate)

lemma requests_stt:
  "requests (stt r s) =
     (case audioInput s of
        None \<Rightarrow> requests s
      | Some [] \<Rightarrow> requests s
      | Some (f # fs) \<Rightarrow> requests s @ [PostSTT f])"
  by (simp add: requests_def effects_stt split: option.splits list.splits)

lemma requests_checkHealth: "requests (checkHealth r s) = requests s @ [GetHealth]"
  by (simp add: requests_def effects_checkHealth)

lemma requests_loadLanguages: "requests (loadLanguages r s) = requests s @ [GetLanguages]"
  by (simp add: requests_def effects_loadLanguages)

subsection \<open>Failures\<close>




subsection \<open>The health request\<close>

lemma health_requests_append:
  "requests s' = requests s @ rqs \<Longrightarrow>
   health_requests s' = health_requests s + length (filter (\<lambda>rq. rq = GetHealth) rqs)"
  by (simp add: health_requests_def)

lemma effects_copyTranslation:
  "concat (map request_of (effects (copyTranslation ok s))) = concat (map request_of (effects s))"
  by (simp add: copyTranslation_def Let_def)

lemma effects_downloadTranslation:
  "concat (map request_of (effects (downloadTranslation now s))) =
   concat (map request_of (effects s))"
  by (simp add: downloadTranslation_def Let_def)

lemma effects_timer_fires: "effects (timer_fires i s) = effects s"
  by (simp add: timer_fires_def run_timer_def split: timer.splits)

lemma health_requests_handle: "health_requests (handle e s) = health_requests s"
proof (cases e)
  case (ClickTranslate r)
  then show ?thesis
    by (simp add: health_requests_def requests_translate)
next
  case ClickSwap
  then show ?thesis
    by (simp add: health_requests_def requests_def swap_def)
next
  case ClickClear
  then show ?thesis
    by (simp add: health_requests_def requests_def clearAll_def)
next
  case (ClickSTT r)
  then show ?thesis
    by (simp add: health_requests_def requests_stt split: option.splits list.splits)
next
  case (ClickTTS r)
  then show ?thesis
    by (simp add: health_requests_def requests_tts)
next
  case (ClickCopy ok)
  then show ?thesis
    by (simp add: health_requests_def requests_def effects_copyTranslation)
next
  case (ClickDownload now)
  then show ?thesis
    by (simp add: health_requests_def requests_def effects_downloadTranslation)
next
  case (TimerFires i)
  then show ?thesis
    by (simp add: health_requests_def requests_def effects_timer_fires)
qed (simp_all add: health_requests_def requests_def)

lemma health_requests_events:
  "health_requests (foldl (\<lambda>s' e. handle e s') s evs) = health_requests s"
  by (induction evs arbitrary: s) (simp_all add: health_requests_handle)

lemma requests_onDOMContentLoaded:
  "requests (onDOMContentLoaded rh rl s) = requests s @ [GetHealth, GetLanguages]"
proof -
  have "effects (onDOMContentLoaded rh rl s) = effects (loadLanguages rl (checkHealth rh s))"
    by (simp add: onDOMContentLoaded_def enableTextSelection_def Let_def)
  then have "requests (onDOMContentLoaded rh rl s) = requests (loadLanguages rl (checkHealth rh s))"
    by (rule requests_same)
  then show ?thesis
    by (simp add: requests_loadLanguages requests_checkHealth)
qed

text \<open>
  Claim C7, as amended. The health request is issued exactly once in the life of a
  page, by the handler of \<^verbatim>\<open>DOMContentLoaded\<close>: whatever the outcomes of the two requests
  at load and whatever events follow (clicks, timers, edits), the number of health
  requests issued is one more than before the page was loaded.
\<close>

theorem health_requested_once:
  "health_requests (lifetime rh rl evs s) = Suc (health_requests s)"
  by (simp add: lifetime_def health_requests_events
      health_requests_append [OF requests_onDOMContentLoaded])

text \<open>
  The claim as first stated has the health request issued more than once. A page that
  is loaded and then runs the example session issues four requests, one of them the
  health request.
\<close>

theorem health_polling_counterexample:
  "requests (lifetime (Body healthy_body) (Body languages_body) example_session page0) =
     [GetHealth, GetLanguages, PostTranslate (lit ''hi'') (lit ''auto'') (lit ''en''),
      PostTTS (lit ''bonjour'') (lit ''en'')] \<and>
   health_requests (lifetime (Body healthy_body) (Body languages_body) example_session page0) = 1 \<and>
   \<not> 1 < health_requests
           (lifetime (Body healthy_body) (Body languages_body) example_session page0)"
  by (simp add: handler_defs example_defs)

subsection \<open>The language codes of a request\<close>



















end
